theory Spec2Isabelle
  imports
    Main
    "HOL-Library.Char_ord"
    "HOL-Library.List_Lexorder"
    "HOL-Library.Product_Lexorder"
begin

section \<open>Python values\<close>

text \<open>
  A Python \<open>str\<close> is a sequence of code points. The embedding writes it as a
  \<^typ>\<open>string\<close> whose characters are the code points below 256; the order on strings is
  the lexicographic order on code points, as Python's \<open><\<close> on \<open>str\<close>.
\<close>

text \<open>\<open>c.isspace()\<close> on the code points below 256.\<close>

definition isspace :: "char \<Rightarrow> bool" where
  "isspace c =
     (let n = (of_char c :: nat)
      in (9 \<le> n \<and> n \<le> 13) \<or> (28 \<le> n \<and> n \<le> 32) \<or> n = 133 \<or> n = 160)"

text \<open>\<open>s.strip()\<close>: leading and trailing whitespace removed.\<close>

definition strip :: "string \<Rightarrow> string" where
  "strip s = rev (dropWhile isspace (rev (dropWhile isspace s)))"

text \<open>\<open>s.lower()\<close> on the code points below 256: A-Z and the Latin-1 capitals.\<close>

definition lower_char :: "char \<Rightarrow> char" where
  "lower_char c =
     (let n = (of_char c :: nat)
      in if (65 \<le> n \<and> n \<le> 90) \<or> (192 \<le> n \<and> n \<le> 222 \<and> n \<noteq> 215)
         then char_of (n + 32) else c)"

definition lower :: "string \<Rightarrow> string" where
  "lower s = map lower_char s"

text \<open>\<open>s.startswith(".")\<close>.\<close>

fun startswith_dot :: "string \<Rightarrow> bool" where
  "startswith_dot [] = False"
| "startswith_dot (c # cs) = (c = CHR ''.'')"

text \<open>
  The exceptions the program can meet. All of them are subclasses of \<open>Exception\<close>;
  \<open>is_OSError\<close> says which ones are \<open>OSError\<close> or a subclass of it.
\<close>

datatype exc =
    PermissionError
  | FileNotFoundError
  | FileExistsError
  | NotADirectoryError
  | IsADirectoryError
  | ShutilError             \<comment> \<open>\<open>shutil.Error\<close>, a subclass of \<open>OSError\<close>\<close>
  | SameFileError           \<comment> \<open>\<open>shutil.SameFileError\<close>, a subclass of \<open>shutil.Error\<close>\<close>
  | OSError                 \<comment> \<open>any other \<open>OSError\<close>\<close>
  | RuntimeError

fun is_OSError :: "exc \<Rightarrow> bool" where
  "is_OSError RuntimeError = False"
| "is_OSError _ = True"

section \<open>The standard library: paths and the filesystem\<close>

text \<open>
  \<open>pathlib\<close>, \<open>os\<close> and \<open>shutil\<close> are not part of the repository. Their operations
  are the fields of an environment, over a type \<open>'p\<close> of paths and a type \<open>'fs\<close> of
  filesystem states. Everything proved below holds for every environment.
  Reading operations take the filesystem state; the calls that change the filesystem
  are values of \<open>fs_call\<close>, performed by \<open>fs_perform\<close>, which returns the new
  filesystem state and the exception raised, if any (a call that raises may already
  have changed the filesystem). \<open>is_dir\<close> and \<open>exists\<close> can raise: in Python
  3.11 they answer \<open>False\<close> for a missing path and raise every other \<open>OSError\<close> of
  the underlying \<open>stat\<close>, such as the \<open>PermissionError\<close> for a path inside a
  directory that may not be searched.
\<close>

record stat_result =
  st_mode :: nat
  st_size :: nat
  st_mtime :: int

datatype 'p fs_call =
    Touch 'p            \<comment> \<open>\<open>target.touch(exist_ok=False)\<close>\<close>
  | Mkdir 'p            \<comment> \<open>\<open>target.mkdir(parents=False, exist_ok=False)\<close>\<close>
  | Rename 'p 'p        \<comment> \<open>\<open>entry.rename(target)\<close>\<close>
  | Rmtree 'p           \<comment> \<open>\<open>shutil.rmtree(entry)\<close>\<close>
  | Unlink 'p           \<comment> \<open>\<open>entry.unlink()\<close>\<close>
  | Move 'p 'p          \<comment> \<open>\<open>shutil.move(str(src), str(dst))\<close>\<close>
  | Copytree 'p 'p      \<comment> \<open>\<open>shutil.copytree(str(src), str(dst))\<close>\<close>
  | Copy2 'p 'p         \<comment> \<open>\<open>shutil.copy2(str(src), str(dst))\<close>\<close>

record ('p, 'fs) env =
  path_of_str :: "string \<Rightarrow> 'p"                \<comment> \<open>\<open>Path(s)\<close>\<close>
  path_name :: "'p \<Rightarrow> string"                  \<comment> \<open>\<open>p.name\<close>\<close>
  path_suffix :: "'p \<Rightarrow> string"                \<comment> \<open>\<open>p.suffix\<close>\<close>
  path_parent :: "'p \<Rightarrow> 'p"                    \<comment> \<open>\<open>p.parent\<close>\<close>
  path_join :: "'p \<Rightarrow> string \<Rightarrow> 'p"            \<comment> \<open>\<open>p / s\<close>\<close>
  path_expanduser :: "'p \<Rightarrow> exc + 'p"          \<comment> \<open>\<open>p.expanduser()\<close>\<close>
  path_iterdir :: "'fs \<Rightarrow> 'p \<Rightarrow> exc + 'p list"  \<comment> \<open>\<open>p.iterdir()\<close>, consumed\<close>
  path_is_dir :: "'fs \<Rightarrow> 'p \<Rightarrow> exc + bool"     \<comment> \<open>\<open>p.is_dir()\<close>\<close>
  path_exists :: "'fs \<Rightarrow> 'p \<Rightarrow> exc + bool"     \<comment> \<open>\<open>p.exists()\<close>\<close>
  path_stat :: "'fs \<Rightarrow> 'p \<Rightarrow> exc + stat_result" \<comment> \<open>\<open>p.stat()\<close>\<close>
  strftime_mtime :: "int \<Rightarrow> exc + string"
    \<comment> \<open>\<open>datetime.fromtimestamp(ts).strftime("%Y-%m-%d %H:%M")\<close>\<close>
  filemode :: "nat \<Rightarrow> string"                  \<comment> \<open>\<open>stat.filemode(mode)\<close>\<close>
  fs_perform :: "'fs \<Rightarrow> 'p fs_call \<Rightarrow> 'fs \<times> exc option"

section \<open>Helpers\<close>

text \<open>
  \<open>file_permissions\<close> and \<open>file_modified\<close>: every exception gives the placeholder.
\<close>

definition file_permissions :: "('p, 'fs) env \<Rightarrow> 'fs \<Rightarrow> 'p \<Rightarrow> string" where
  "file_permissions env fs path =
     (case path_stat env fs path of
        Inr st \<Rightarrow> filemode env (st_mode st)
      | Inl e \<Rightarrow> ''----------'')"

definition file_modified :: "('p, 'fs) env \<Rightarrow> 'fs \<Rightarrow> 'p \<Rightarrow> string" where
  "file_modified env fs path =
     (case path_stat env fs path of
        Inr st \<Rightarrow>
          (case strftime_mtime env (st_mtime st) of
             Inr s \<Rightarrow> s
           | Inl e \<Rightarrow> ''-'')
      | Inl e \<Rightarrow> ''-'')"

section \<open>The application state\<close>

text \<open>
  An icon is a sequence of Unicode code points. The size column holds \<open>"-"\<close>,
  \<open>"?"\<close> or \<open>human_size(n)\<close>; \<open>human_size\<close> formats with floating-point
  arithmetic, which is not embedded: the cell records its argument \<open>n\<close>.
\<close>

type_synonym glyph = "nat list"

datatype size_cell = SizeDash | SizeUnknown | SizeHuman nat

record table_row =
  cell_icon :: glyph
  cell_name :: string
  cell_size :: size_cell
  cell_modified :: string
  cell_perms :: string

text \<open>
  The messages of the status bar, one constructor for each message text of the source.
\<close>

datatype 'p message =
    StEmpty                         \<comment> \<open>the empty message\<close>
  | StClipboard bool string         \<comment> \<open>cut (True) or copied (False), name; press V to paste\<close>
  | StPermissionDenied              \<comment> \<open>warning: Permission denied\<close>
  | StItems nat 'p bool             \<comment> \<open>count items in dir; the flag is \<open>show_hidden\<close>\<close>
  | StRefreshed
  | StNotADirectory string          \<comment> \<open>warning: Not a directory: result\<close>
  | StCreatedFile string
  | StFileExists string             \<comment> \<open>warning: File already exists: result\<close>
  | StCreatedDir string
  | StDirExists string              \<comment> \<open>warning: Directory already exists: result\<close>
  | StError exc                     \<comment> \<open>warning: Error: e\<close>
  | StNoItem                        \<comment> \<open>warning: No item selected.\<close>
  | StRenamed string
  | StDeleted string
  | StClipboardEmpty                \<comment> \<open>warning: Clipboard is empty. Use [C] to copy first.\<close>
  | StSameLocation                  \<comment> \<open>warning: Source and destination are the same.\<close>
  | StMoved string
  | StCopied string
  | StCannotEdit                    \<comment> \<open>warning: Cannot edit a directory.\<close>
  | StSaved string                  \<comment> \<open>from the editor: Saved: name\<close>
  | StSaveError exc                 \<comment> \<open>from the editor: warning: Save error: e\<close>

text \<open>
  The state of \<open>FileManagerApp\<close>: its four reactive attributes, the rows and the cursor
  of the \<open>DataTable\<close>, the list \<open>_row_entries\<close> (absent until the first listing is
  built), the message of the status bar, the text of the path bar and the path of the
  directory tree.
\<close>

record 'p app =
  current_dir :: 'p
  show_hidden :: bool
  clipboard :: "'p option"
  clipboard_op :: string
  table_rows :: "table_row list"
  cursor_row :: int
  row_entries :: "'p list option"
  status :: "'p message"
  path_bar :: "'p option"
  tree_path :: 'p

definition set_status :: "'p app \<Rightarrow> 'p message \<Rightarrow> 'p app" where
  "set_status app msg = app\<lparr>status := msg\<rparr>"

section \<open>The listing builder\<close>

text \<open>
  \<open>_file_icon\<close>: the icon of a file, by its lower-cased suffix; the default is the
  page icon.
\<close>

definition icons :: "(string \<times> glyph) list" where
  "icons =
     [(''.py'', [0x1F40D]), (''.js'', [0x1F7E8]), (''.ts'', [0x1F537]),
      (''.html'', [0x1F310]), (''.css'', [0x1F3A8]),
      (''.json'', [0x1F4CB]), (''.md'', [0x1F4DD]), (''.txt'', [0x1F4C4]),
      (''.pdf'', [0x1F4D5]),
      (''.png'', [0x1F5BC]), (''.jpg'', [0x1F5BC]), (''.jpeg'', [0x1F5BC]),
      (''.gif'', [0x1F5BC]), (''.svg'', [0x1F5BC]),
      (''.mp3'', [0x1F3B5]), (''.wav'', [0x1F3B5]), (''.flac'', [0x1F3B5]),
      (''.mp4'', [0x1F3AC]), (''.mkv'', [0x1F3AC]), (''.avi'', [0x1F3AC]),
      (''.zip'', [0x1F5DC]), (''.tar'', [0x1F5DC]), (''.gz'', [0x1F5DC]),
      (''.rar'', [0x1F5DC]),
      (''.exe'', [0x2699]), (''.sh'', [0x2699]), (''.bat'', [0x2699]),
      (''.db'', [0x1F5C4]), (''.sqlite'', [0x1F5C4]),
      (''.rs'', [0x1F980]), (''.go'', [0x1F439]), (''.c'', [0x1F527]),
      (''.cpp'', [0x1F527])]"

definition file_icon :: "('p, 'fs) env \<Rightarrow> 'p \<Rightarrow> glyph" where
  "file_icon env path =
     (let suffix = lower (path_suffix env path)
      in case map_of icons suffix of Some g \<Rightarrow> g | None \<Rightarrow> [0x1F4C4])"

text \<open>
  The size cell of an entry:
  \<^verbatim>\<open>"-" if entry.is_dir() else human_size(entry.stat().st_size) if entry.exists() else "?"\<close>
  inside a \<open>try\<close> that catches \<open>OSError\<close> only and then gives \<open>"?"\<close>: any other
  exception leaves \<open>refresh_table\<close>.
\<close>

definition size_text :: "('p, 'fs) env \<Rightarrow> 'fs \<Rightarrow> 'p \<Rightarrow> exc + size_cell" where
  "size_text env fs entry =
     (let caught = (\<lambda>e. if is_OSError e then Inr SizeUnknown else Inl e)
      in case path_is_dir env fs entry of
           Inl e \<Rightarrow> caught e
         | Inr True \<Rightarrow> Inr SizeDash
         | Inr False \<Rightarrow>
             (case path_exists env fs entry of
                Inl e \<Rightarrow> caught e
              | Inr False \<Rightarrow> Inr SizeUnknown
              | Inr True \<Rightarrow>
                  (case path_stat env fs entry of
                     Inl e \<Rightarrow> caught e
                   | Inr st \<Rightarrow> Inr (SizeHuman (st_size st)))))"

text \<open>
  The row of one entry, as the body of the loop computes it: the icon first
  (\<open>entry.is_dir()\<close>, outside every \<open>try\<close>), then the size, the date and the
  permissions.
\<close>

definition table_row_of :: "('p, 'fs) env \<Rightarrow> 'fs \<Rightarrow> 'p \<Rightarrow> exc + table_row" where
  "table_row_of env fs entry =
     (case path_is_dir env fs entry of
        Inl e \<Rightarrow> Inl e
      | Inr d \<Rightarrow>
          (case size_text env fs entry of
             Inl e \<Rightarrow> Inl e
           | Inr sz \<Rightarrow>
               Inr \<lparr>cell_icon = (if d then [0x1F4C1] else file_icon env entry),
                    cell_name = path_name env entry,
                    cell_size = sz,
                    cell_modified = file_modified env fs entry,
                    cell_perms = file_permissions env fs entry\<rparr>))"

text \<open>
  The loop of \<open>refresh_table\<close> over the sorted entries. Its variables are the rows
  added to the table, \<open>_row_entries\<close> and \<open>count\<close>; it stops at the first exception,
  with what it has added so far.
\<close>

fun add_rows ::
  "('p, 'fs) env \<Rightarrow> 'fs \<Rightarrow> bool \<Rightarrow> 'p list \<Rightarrow> table_row list \<times> 'p list \<times> nat \<Rightarrow>
   (table_row list \<times> 'p list \<times> nat) \<times> exc option" where
  "add_rows env fs hidden [] acc = (acc, None)"
| "add_rows env fs hidden (entry # rest) (rows, ents, count) =
     (if \<not> hidden \<and> startswith_dot (path_name env entry)
      then add_rows env fs hidden rest (rows, ents, count)
      else
        (case table_row_of env fs entry of
           Inl e \<Rightarrow> ((rows, ents, count), Some e)
         | Inr row \<Rightarrow>
             add_rows env fs hidden rest (rows @ [row], ents @ [entry], count + 1)))"

text \<open>
  The sort keys \<open>(not p.is_dir(), p.name.lower())\<close>: \<open>sorted\<close> computes the key of every
  element, in the order of the enumeration, before it sorts; the first exception of a
  key leaves \<open>sorted\<close>.
\<close>

fun sort_keys ::
  "('p, 'fs) env \<Rightarrow> 'fs \<Rightarrow> 'p list \<Rightarrow> exc + ((bool \<times> string) \<times> 'p) list" where
  "sort_keys env fs [] = Inr []"
| "sort_keys env fs (p # ps) =
     (case path_is_dir env fs p of
        Inl e \<Rightarrow> Inl e
      | Inr d \<Rightarrow>
          (case sort_keys env fs ps of
             Inl e \<Rightarrow> Inl e
           | Inr keyed \<Rightarrow> Inr (((\<not> d, lower (path_name env p)), p) # keyed)))"

text \<open>
  The expression inside the \<open>try\<close> of \<open>refresh_table\<close>:
  \<^verbatim>\<open>sorted(self.current_dir.iterdir(), key=lambda p: (not p.is_dir(), p.name.lower()))\<close>.
  Python's \<open>sorted\<close> is stable, as \<^const>\<open>sort_key\<close> is.
\<close>

definition sorted_entries :: "('p, 'fs) env \<Rightarrow> 'fs \<Rightarrow> 'p \<Rightarrow> exc + 'p list" where
  "sorted_entries env fs dir =
     (case path_iterdir env fs dir of
        Inl e \<Rightarrow> Inl e
      | Inr listed \<Rightarrow>
          (case sort_keys env fs listed of
             Inl e \<Rightarrow> Inl e
           | Inr keyed \<Rightarrow> Inr (map snd (sort_key fst keyed))))"

text \<open>
  \<open>refresh_table\<close>. The table is cleared first (which also puts the cursor on row 0).
  Of the exceptions of the enumeration and of its sort only \<open>PermissionError\<close> is
  caught; the result is the new state and the exception that leaves the function, if
  any.
\<close>

definition refresh_table ::
  "('p, 'fs) env \<Rightarrow> 'fs \<Rightarrow> 'p app \<Rightarrow> 'p app \<times> exc option" where
  "refresh_table env fs app0 =
     (let app = app0\<lparr>table_rows := [], cursor_row := 0\<rparr>
      in case sorted_entries env fs (current_dir app) of
           Inl e \<Rightarrow>
             if e = PermissionError then (set_status app StPermissionDenied, None)
             else (app, Some e)
         | Inr entries \<Rightarrow>
             (let ((rows, ents, count), raised) =
                     add_rows env fs (show_hidden app) entries ([], [], 0);
                  app' = app\<lparr>table_rows := rows, row_entries := Some ents\<rparr>
              in case raised of
                   Some e \<Rightarrow> (app', Some e)
                 | None \<Rightarrow>
                     (set_status app' (StItems count (current_dir app) (show_hidden app)),
                      None)))"

text \<open>
  \<open>selected_entry\<close>: \<open>None\<close> for a negative cursor, an empty table, a missing
  \<open>_row_entries\<close> (AttributeError) or an index out of range (IndexError).
\<close>

definition selected_entry :: "'p app \<Rightarrow> 'p option" where
  "selected_entry app =
     (let row_idx = cursor_row app
      in if row_idx < 0 \<or> length (table_rows app) = 0 then None
         else
           (case row_entries app of
              None \<Rightarrow> None
            | Some ents \<Rightarrow>
                if nat row_idx < length ents then Some (ents ! nat row_idx) else None))"

section \<open>The dialogs\<close>

text \<open>
  \<open>InputModal\<close> dismisses with the stripped text of its input on OK (or Enter, which
  calls \<open>confirm\<close>) and with \<open>None\<close> on Cancel. The callback given to \<open>push_screen\<close>
  receives that value.
\<close>

definition InputModal_confirm :: "string \<Rightarrow> string option" where
  "InputModal_confirm v = Some (strip v)"

definition InputModal_cancel :: "string option" where
  "InputModal_cancel = None"

definition InputModal_submit :: "string \<Rightarrow> string option" where
  "InputModal_submit v = InputModal_confirm v"

text \<open>\<open>if result:\<close> on a value of type \<open>str | None\<close>.\<close>

definition truthy :: "string option \<Rightarrow> bool" where
  "truthy result = (case result of None \<Rightarrow> False | Some s \<Rightarrow> s \<noteq> [])"

section \<open>Reactive attributes\<close>

text \<open>
  \<open>current_dir\<close> and \<open>clipboard\<close> are Textual reactive attributes with a watcher. An
  assignment stores the value and calls the watcher when the new value differs from the
  current one, and does nothing otherwise. The watcher runs inside the assignment, so
  an exception of the watcher leaves the assignment. In \<open>watch_current_dir\<close> the
  update of the directory tree is inside a \<open>try\<close> that swallows every exception; the
  model takes the update to succeed.
\<close>

definition watch_current_dir ::
  "('p, 'fs) env \<Rightarrow> 'fs \<Rightarrow> 'p app \<Rightarrow> 'p \<Rightarrow> 'p app \<times> exc option" where
  "watch_current_dir env fs app new_dir =
     (let (app', raised) = refresh_table env fs (app\<lparr>path_bar := Some new_dir\<rparr>)
      in case raised of
           Some e \<Rightarrow> (app', Some e)
         | None \<Rightarrow> (app'\<lparr>tree_path := new_dir\<rparr>, None))"

definition assign_current_dir ::
  "('p, 'fs) env \<Rightarrow> 'fs \<Rightarrow> 'p app \<Rightarrow> 'p \<Rightarrow> 'p app \<times> exc option" where
  "assign_current_dir env fs app v =
     (if v = current_dir app then (app, None)
      else watch_current_dir env fs (app\<lparr>current_dir := v\<rparr>) v)"

definition watch_clipboard :: "('p, 'fs) env \<Rightarrow> 'p app \<Rightarrow> 'p option \<Rightarrow> 'p app" where
  "watch_clipboard env app path =
     (case path of
        Some p \<Rightarrow> set_status app (StClipboard (clipboard_op app = ''cut'') (path_name env p))
      | None \<Rightarrow> set_status app StEmpty)"

definition assign_clipboard :: "('p, 'fs) env \<Rightarrow> 'p app \<Rightarrow> 'p option \<Rightarrow> 'p app" where
  "assign_clipboard env app v =
     (if v = clipboard app then app
      else watch_clipboard env (app\<lparr>clipboard := v\<rparr>) v)"

section \<open>Navigation\<close>

definition on_dir_selected ::
  "('p, 'fs) env \<Rightarrow> 'fs \<Rightarrow> 'p app \<Rightarrow> 'p \<Rightarrow> 'p app \<times> exc option" where
  "on_dir_selected env fs app path = assign_current_dir env fs app path"

definition on_row_selected ::
  "('p, 'fs) env \<Rightarrow> 'fs \<Rightarrow> 'p app \<Rightarrow> 'p app \<times> exc option" where
  "on_row_selected env fs app =
     (case selected_entry app of
        None \<Rightarrow> (app, None)
      | Some entry \<Rightarrow>
          (case path_is_dir env fs entry of
             Inl e \<Rightarrow> (app, Some e)
           | Inr True \<Rightarrow> assign_current_dir env fs app entry
           | Inr False \<Rightarrow> (app, None)))"

definition action_go_up ::
  "('p, 'fs) env \<Rightarrow> 'fs \<Rightarrow> 'p app \<Rightarrow> 'p app \<times> exc option" where
  "action_go_up env fs app =
     (let parent = path_parent env (current_dir app)
      in if parent \<noteq> current_dir app then assign_current_dir env fs app parent
         else (app, None))"

definition action_refresh ::
  "('p, 'fs) env \<Rightarrow> 'fs \<Rightarrow> 'p app \<Rightarrow> 'p app \<times> exc option" where
  "action_refresh env fs app =
     (let (app', raised) = refresh_table env fs app
      in case raised of
           Some e \<Rightarrow> (app', Some e)
         | None \<Rightarrow> (set_status app' StRefreshed, None))"

definition action_toggle_hidden ::
  "('p, 'fs) env \<Rightarrow> 'fs \<Rightarrow> 'p app \<Rightarrow> 'p app \<times> exc option" where
  "action_toggle_hidden env fs app =
     refresh_table env fs (app\<lparr>show_hidden := \<not> show_hidden app\<rparr>)"

text \<open>
  \<open>action_goto\<close>: the callback \<open>handle\<close>, applied to the value the dialog was dismissed
  with. Nothing here is inside a \<open>try\<close>: an exception of \<open>expanduser\<close>, of \<open>is_dir\<close>
  or of the listing leaves the callback.
\<close>

definition action_goto ::
  "('p, 'fs) env \<Rightarrow> 'fs \<Rightarrow> 'p app \<Rightarrow> string option \<Rightarrow> 'p app \<times> exc option" where
  "action_goto env fs app result =
     (if truthy result then
        (case path_expanduser env (path_of_str env (the result)) of
           Inl e \<Rightarrow> (app, Some e)
         | Inr p \<Rightarrow>
             (case path_is_dir env fs p of
                Inl e \<Rightarrow> (app, Some e)
              | Inr True \<Rightarrow> assign_current_dir env fs app p
              | Inr False \<Rightarrow> (set_status app (StNotADirectory (the result)), None)))
      else (app, None))"

section \<open>Commands that change the filesystem\<close>

text \<open>
  The body shared by new file, new directory, rename and delete (after its \<open>is_dir\<close>):
  \<^verbatim>\<open>try: <call>; self.refresh_table(); self.set_status(<ok>)\<close>
  \<^verbatim>\<open>except ... as e: self.set_status(<message for e>)\<close>
  where the handlers together catch every \<open>Exception\<close>. The first argument of the
  last parameter is the filesystem after the call, the second the exception the call
  raised.
\<close>

definition try_call_refresh ::
  "('p, 'fs) env \<Rightarrow> 'p app \<Rightarrow> 'p message \<Rightarrow> (exc \<Rightarrow> 'p message) \<Rightarrow> 'fs \<times> exc option \<Rightarrow>
   'fs \<times> 'p app" where
  "try_call_refresh env app ok on_exc outcome =
     (let (fs', raised) = outcome
      in case raised of
           Some e \<Rightarrow> (fs', set_status app (on_exc e))
         | None \<Rightarrow>
             (let (app', raised') = refresh_table env fs' app
              in case raised' of
                   Some e \<Rightarrow> (fs', set_status app' (on_exc e))
                 | None \<Rightarrow> (fs', set_status app' ok)))"

definition action_new_file ::
  "('p, 'fs) env \<Rightarrow> 'fs \<Rightarrow> 'p app \<Rightarrow> string option \<Rightarrow> 'fs \<times> 'p app" where
  "action_new_file env fs app result =
     (if truthy result then
        (let target = path_join env (current_dir app) (the result)
         in try_call_refresh env app (StCreatedFile (the result))
              (\<lambda>e. if e = FileExistsError then StFileExists (the result) else StError e)
              (fs_perform env fs (Touch target)))
      else (fs, app))"

definition action_new_dir ::
  "('p, 'fs) env \<Rightarrow> 'fs \<Rightarrow> 'p app \<Rightarrow> string option \<Rightarrow> 'fs \<times> 'p app" where
  "action_new_dir env fs app result =
     (if truthy result then
        (let target = path_join env (current_dir app) (the result)
         in try_call_refresh env app (StCreatedDir (the result))
              (\<lambda>e. if e = FileExistsError then StDirExists (the result) else StError e)
              (fs_perform env fs (Mkdir target)))
      else (fs, app))"

text \<open>
  \<open>action_rename\<close>: \<open>rename_handle\<close> is the callback, for the entry that was selected
  when the command was given. Likewise \<open>delete_handle\<close> below, whose \<open>entry.is_dir()\<close>
  is inside the \<open>try\<close>.
\<close>

definition rename_handle ::
  "('p, 'fs) env \<Rightarrow> 'fs \<Rightarrow> 'p app \<Rightarrow> 'p \<Rightarrow> string option \<Rightarrow> 'fs \<times> 'p app" where
  "rename_handle env fs app entry result =
     (if truthy result \<and> the result \<noteq> path_name env entry then
        (let target = path_join env (current_dir app) (the result)
         in try_call_refresh env app (StRenamed (the result)) StError
              (fs_perform env fs (Rename entry target)))
      else (fs, app))"

definition action_rename ::
  "('p, 'fs) env \<Rightarrow> 'fs \<Rightarrow> 'p app \<Rightarrow> string option \<Rightarrow> 'fs \<times> 'p app" where
  "action_rename env fs app result =
     (case selected_entry app of
        None \<Rightarrow> (fs, set_status app StNoItem)
      | Some entry \<Rightarrow> rename_handle env fs app entry result)"

definition delete_handle ::
  "('p, 'fs) env \<Rightarrow> 'fs \<Rightarrow> 'p app \<Rightarrow> 'p \<Rightarrow> bool \<Rightarrow> 'fs \<times> 'p app" where
  "delete_handle env fs app entry confirmed =
     (if confirmed then
        (case path_is_dir env fs entry of
           Inl e \<Rightarrow> (fs, set_status app (StError e))
         | Inr d \<Rightarrow>
             try_call_refresh env app (StDeleted (path_name env entry)) StError
               (fs_perform env fs (if d then Rmtree entry else Unlink entry)))
      else (fs, app))"

definition action_delete ::
  "('p, 'fs) env \<Rightarrow> 'fs \<Rightarrow> 'p app \<Rightarrow> bool \<Rightarrow> 'fs \<times> 'p app" where
  "action_delete env fs app confirmed =
     (case selected_entry app of
        None \<Rightarrow> (fs, set_status app StNoItem)
      | Some entry \<Rightarrow> delete_handle env fs app entry confirmed)"

section \<open>The clipboard\<close>

definition action_copy_item :: "('p, 'fs) env \<Rightarrow> 'p app \<Rightarrow> 'p app" where
  "action_copy_item env app =
     (case selected_entry app of
        None \<Rightarrow> set_status app StNoItem
      | Some entry \<Rightarrow> (assign_clipboard env app (Some entry))\<lparr>clipboard_op := ''copy''\<rparr>)"

text \<open>
  \<open>action_paste_item\<close>. A \<open>Path\<close> is always true, so \<open>not self.clipboard\<close> holds for
  \<open>None\<close> only. The success message is set before \<open>refresh_table\<close>, which replaces it.
  Everything after the two guards is inside one \<open>try\<close> that catches every \<open>Exception\<close>.
\<close>

definition action_paste_item ::
  "('p, 'fs) env \<Rightarrow> 'fs \<Rightarrow> 'p app \<Rightarrow> 'fs \<times> 'p app" where
  "action_paste_item env fs app =
     (case clipboard app of
        None \<Rightarrow> (fs, set_status app StClipboardEmpty)
      | Some src \<Rightarrow>
          (let dst = path_join env (current_dir app) (path_name env src)
           in if dst = src then (fs, set_status app StSameLocation)
              else if clipboard_op app = ''cut'' then
                (let (fs', raised) = fs_perform env fs (Move src dst)
                 in case raised of
                      Some e \<Rightarrow> (fs', set_status app (StError e))
                    | None \<Rightarrow>
                        (let app1 = assign_clipboard env app None;
                             app2 = set_status app1 (StMoved (path_name env src));
                             (app3, raised') = refresh_table env fs' app2
                         in case raised' of
                              Some e \<Rightarrow> (fs', set_status app3 (StError e))
                            | None \<Rightarrow> (fs', app3)))
              else
                (case path_is_dir env fs src of
                   Inl e \<Rightarrow> (fs, set_status app (StError e))
                 | Inr d \<Rightarrow>
                     (let (fs', raised) =
                            fs_perform env fs (if d then Copytree src dst else Copy2 src dst)
                      in case raised of
                           Some e \<Rightarrow> (fs', set_status app (StError e))
                         | None \<Rightarrow>
                             (let app2 = set_status app (StCopied (path_name env src));
                                  (app3, raised') = refresh_table env fs' app2
                              in case raised' of
                                   Some e \<Rightarrow> (fs', set_status app3 (StError e))
                                 | None \<Rightarrow> (fs', app3))))))"

text \<open>Pasting \<open>n\<close> times in a row.\<close>

fun paste_times ::
  "nat \<Rightarrow> ('p, 'fs) env \<Rightarrow> 'fs \<Rightarrow> 'p app \<Rightarrow> 'fs \<times> 'p app" where
  "paste_times 0 env fs app = (fs, app)"
| "paste_times (Suc n) env fs app =
     (let (fs', app') = action_paste_item env fs app in paste_times n env fs' app')"

section \<open>Editing\<close>

text \<open>
  \<open>action_edit_file\<close>: the editor dismisses with a message after a save (or a failed
  save) and with \<open>None\<close> when it is closed; \<open>fs\<close> is the filesystem it leaves.
\<close>

definition action_edit_file ::
  "('p, 'fs) env \<Rightarrow> 'fs \<Rightarrow> 'p app \<Rightarrow> 'p message option \<Rightarrow> 'p app \<times> exc option" where
  "action_edit_file env fs app result =
     (case selected_entry app of
        None \<Rightarrow> (set_status app StNoItem, None)
      | Some entry \<Rightarrow>
          (case path_is_dir env fs entry of
             Inl e \<Rightarrow> (app, Some e)
           | Inr True \<Rightarrow> (set_status app StCannotEdit, None)
           | Inr False \<Rightarrow>
               (case result of
                  None \<Rightarrow> (app, None)
                | Some msg \<Rightarrow> refresh_table env fs (set_status app msg))))"


section \<open>An example environment\<close>

text \<open>
  A small filesystem on which the functions above are run, with the behaviour of
  \<open>pathlib\<close>, \<open>os\<close> and \<open>shutil\<close> of Python 3.11 on POSIX. A path is the list of its
  components below the root (the working directory is the root). A filesystem is a
  table from paths to nodes, in the order in which a directory is enumerated, with the
  directories that may not be read (listed), the directories that may not be searched
  (nothing inside them can be reached), and the journal of the calls performed.

  Not in the example: symbolic links, the components \<open>..\<close>, permission to write
  (every directory may be written), times and modes. Two situations are cut short:
  when \<open>rmtree\<close> or \<open>copytree\<close> meets a protected directory inside the tree, Python
  stops (or goes on) with part of the work done, and when a directory is copied into
  itself, Python recurses until the path is too long; the example raises the exception
  and leaves the filesystem as it was.
\<close>

type_synonym dpath = "string list"

datatype node = Dir | File nat

record demo_fs =
  nodes :: "(dpath \<times> node) list"
  unreadable :: "dpath list"
  unsearchable :: "dpath list"
  journal :: "dpath fs_call list"

subsection \<open>Paths\<close>

definition split_slash :: "string \<Rightarrow> string list" where
  "split_slash s =
     foldr (\<lambda>c acc. if c = CHR ''/'' then [] # acc else (c # hd acc) # tl acc) s [[]]"

definition components :: "string \<Rightarrow> dpath" where
  "components s = filter (\<lambda>c. c \<noteq> [] \<and> c \<noteq> ''.'') (split_slash s)"

text \<open>
  \<open>Path(s)\<close>. A relative path that starts with a tilde keeps it in a first component
  \<open>~/user\<close>, which no name can be, for \<open>expanduser\<close>; the only user is \<open>u\<close>, at home in
  \<open>/home/u\<close>, and for any other user \<open>expanduser\<close> raises \<open>RuntimeError\<close>.
\<close>

definition demo_path_of_str :: "string \<Rightarrow> dpath" where
  "demo_path_of_str s =
     (let cs = components s
      in if s \<noteq> [] \<and> hd s = CHR ''~'' then (''~/'' @ tl (hd cs)) # tl cs else cs)"

definition demo_expanduser :: "dpath \<Rightarrow> exc + dpath" where
  "demo_expanduser p =
     (case p of
        [] \<Rightarrow> Inr []
      | c # rest \<Rightarrow>
          if take 2 c = ''~/'' then
            (if drop 2 c = [] \<or> drop 2 c = ''u'' then Inr ([''home'', ''u''] @ rest)
             else Inl RuntimeError)
          else Inr p)"

definition demo_name :: "dpath \<Rightarrow> string" where
  "demo_name p =
     (if p = [] then []
      else if take 2 (last p) = ''~/'' then CHR ''~'' # drop 2 (last p)
      else last p)"

definition demo_suffix :: "dpath \<Rightarrow> string" where
  "demo_suffix p =
     (let n = demo_name p; r = takeWhile (\<lambda>c. c \<noteq> CHR ''.'') (rev n)
      in if r = [] \<or> length n \<le> length r + 1 then [] else CHR ''.'' # rev r)"

definition demo_join :: "dpath \<Rightarrow> string \<Rightarrow> dpath" where
  "demo_join p s = (if s \<noteq> [] \<and> hd s = CHR ''/'' then components s else p @ components s)"

subsection \<open>Looking at the filesystem\<close>

definition demo_lookup :: "demo_fs \<Rightarrow> dpath \<Rightarrow> node option" where
  "demo_lookup fs p = (if p = [] then Some Dir else map_of (nodes fs) p)"

text \<open>\<open>below p q\<close>: \<open>q\<close> is \<open>p\<close> or lies under it; \<open>inside p q\<close>: \<open>q\<close> lies under \<open>p\<close>.\<close>

definition below :: "dpath \<Rightarrow> dpath \<Rightarrow> bool" where
  "below p q = (take (length p) q = p)"

definition inside :: "dpath \<Rightarrow> dpath \<Rightarrow> bool" where
  "inside p q = (below p q \<and> p \<noteq> q)"

definition denied :: "demo_fs \<Rightarrow> dpath \<Rightarrow> bool" where
  "denied fs p = list_ex (\<lambda>d. inside d p) (unsearchable fs)"

definition under_file :: "demo_fs \<Rightarrow> dpath \<Rightarrow> bool" where
  "under_file fs p =
     list_ex (\<lambda>k. case demo_lookup fs (take k p) of Some (File n) \<Rightarrow> True | _ \<Rightarrow> False)
       [0..<length p]"

text \<open>\<open>os.stat\<close>: the node at a path, or \<open>EACCES\<close>, \<open>ENOTDIR\<close> or \<open>ENOENT\<close>.\<close>

definition os_stat :: "demo_fs \<Rightarrow> dpath \<Rightarrow> exc + node" where
  "os_stat fs p =
     (if denied fs p then Inl PermissionError
      else case demo_lookup fs p of
             Some n \<Rightarrow> Inr n
           | None \<Rightarrow> if under_file fs p then Inl NotADirectoryError else Inl FileNotFoundError)"

text \<open>\<open>os.path.isdir\<close> and \<open>os.path.exists\<close>, which \<open>shutil\<close> uses, never raise.\<close>

definition os_path_isdir :: "demo_fs \<Rightarrow> dpath \<Rightarrow> bool" where
  "os_path_isdir fs p = (os_stat fs p = Inr Dir)"

definition os_path_exists :: "demo_fs \<Rightarrow> dpath \<Rightarrow> bool" where
  "os_path_exists fs p = (case os_stat fs p of Inr n \<Rightarrow> True | Inl e \<Rightarrow> False)"

text \<open>
  \<open>Path.is_dir\<close> and \<open>Path.exists\<close> of Python 3.11: \<open>ENOENT\<close> and \<open>ENOTDIR\<close> give
  \<open>False\<close>, every other error of \<open>stat\<close> is raised.
\<close>

definition demo_is_dir :: "demo_fs \<Rightarrow> dpath \<Rightarrow> exc + bool" where
  "demo_is_dir fs p =
     (case os_stat fs p of
        Inr n \<Rightarrow> Inr (n = Dir)
      | Inl e \<Rightarrow> if e = FileNotFoundError \<or> e = NotADirectoryError then Inr False else Inl e)"

definition demo_exists :: "demo_fs \<Rightarrow> dpath \<Rightarrow> exc + bool" where
  "demo_exists fs p =
     (case os_stat fs p of
        Inr n \<Rightarrow> Inr True
      | Inl e \<Rightarrow> if e = FileNotFoundError \<or> e = NotADirectoryError then Inr False else Inl e)"

definition demo_stat :: "demo_fs \<Rightarrow> dpath \<Rightarrow> exc + stat_result" where
  "demo_stat fs p =
     (case os_stat fs p of
        Inl e \<Rightarrow> Inl e
      | Inr Dir \<Rightarrow> Inr \<lparr>st_mode = 16877, st_size = 4096, st_mtime = 0\<rparr>
      | Inr (File n) \<Rightarrow> Inr \<lparr>st_mode = 33188, st_size = n, st_mtime = 0\<rparr>)"

definition demo_iterdir :: "demo_fs \<Rightarrow> dpath \<Rightarrow> exc + dpath list" where
  "demo_iterdir fs p =
     (case os_stat fs p of
        Inl e \<Rightarrow> Inl e
      | Inr (File n) \<Rightarrow> Inl NotADirectoryError
      | Inr Dir \<Rightarrow>
          if p \<in> set (unreadable fs) then Inl PermissionError
          else Inr (filter (\<lambda>q. q \<noteq> [] \<and> butlast q = p) (map fst (nodes fs))))"

subsection \<open>Changing the filesystem\<close>

definition has_children :: "demo_fs \<Rightarrow> dpath \<Rightarrow> bool" where
  "has_children fs d = list_ex (\<lambda>(x, n). inside d x) (nodes fs)"

text \<open>A directory at or under \<open>p\<close> that stops \<open>rmtree\<close> and \<open>copytree\<close>.\<close>

definition protected_in :: "demo_fs \<Rightarrow> dpath \<Rightarrow> bool" where
  "protected_in fs p =
     (list_ex (\<lambda>d. below p d) (unreadable fs) \<or>
      list_ex (\<lambda>d. below p d \<and> has_children fs d) (unsearchable fs))"

definition rebase :: "dpath \<Rightarrow> dpath \<Rightarrow> dpath \<Rightarrow> dpath" where
  "rebase p q x = (if below p x then q @ drop (length p) x else x)"

definition remove_tree :: "demo_fs \<Rightarrow> dpath \<Rightarrow> demo_fs" where
  "remove_tree fs p =
     fs\<lparr>nodes := filter (\<lambda>(x, n). \<not> below p x) (nodes fs),
        unreadable := filter (\<lambda>x. \<not> below p x) (unreadable fs),
        unsearchable := filter (\<lambda>x. \<not> below p x) (unsearchable fs)\<rparr>"

definition relocate :: "demo_fs \<Rightarrow> dpath \<Rightarrow> dpath \<Rightarrow> demo_fs" where
  "relocate fs p q =
     fs\<lparr>nodes := map (\<lambda>(x, n). (rebase p q x, n)) (nodes fs),
        unreadable := map (rebase p q) (unreadable fs),
        unsearchable := map (rebase p q) (unsearchable fs)\<rparr>"

text \<open>
  \<open>Path.touch(exist_ok=False)\<close> and \<open>Path.mkdir(parents=False, exist_ok=False)\<close>:
  a new node, unless the path exists or cannot be reached.
\<close>

definition demo_create :: "demo_fs \<Rightarrow> dpath \<Rightarrow> node \<Rightarrow> demo_fs \<times> exc option" where
  "demo_create fs p n =
     (case os_stat fs p of
        Inr m \<Rightarrow> (fs, Some FileExistsError)
      | Inl e \<Rightarrow>
          if e \<noteq> FileNotFoundError then (fs, Some e)
          else if demo_lookup fs (butlast p) = Some Dir
          then (fs\<lparr>nodes := nodes fs @ [(p, n)]\<rparr>, None)
          else (fs, Some FileNotFoundError))"

text \<open>
  \<open>os.rename\<close>, which is \<open>Path.rename\<close>: a file replaces a file, a directory replaces
  an empty directory; a directory does not go under itself.
\<close>

definition os_rename :: "demo_fs \<Rightarrow> dpath \<Rightarrow> dpath \<Rightarrow> demo_fs \<times> exc option" where
  "os_rename fs p q =
     (case os_stat fs p of
        Inl e \<Rightarrow> (fs, Some e)
      | Inr np \<Rightarrow>
          if denied fs q then (fs, Some PermissionError)
          else if under_file fs q then (fs, Some NotADirectoryError)
          else if demo_lookup fs (butlast q) = None then (fs, Some FileNotFoundError)
          else if p = q then (fs, None)
          else if np = Dir \<and> below p q then (fs, Some OSError)
          else
            (case (np, demo_lookup fs q) of
               (_, None) \<Rightarrow> (relocate fs p q, None)
             | (File n, Some (File m)) \<Rightarrow> (relocate (remove_tree fs q) p q, None)
             | (File n, Some Dir) \<Rightarrow> (fs, Some IsADirectoryError)
             | (Dir, Some (File m)) \<Rightarrow> (fs, Some NotADirectoryError)
             | (Dir, Some Dir) \<Rightarrow>
                 if has_children fs q then (fs, Some OSError)
                 else (relocate (remove_tree fs q) p q, None)))"

text \<open>\<open>shutil.rmtree\<close> and \<open>Path.unlink\<close>.\<close>

definition demo_rmtree :: "demo_fs \<Rightarrow> dpath \<Rightarrow> demo_fs \<times> exc option" where
  "demo_rmtree fs p =
     (case os_stat fs p of
        Inl e \<Rightarrow> (fs, Some e)
      | Inr (File n) \<Rightarrow> (fs, Some NotADirectoryError)
      | Inr Dir \<Rightarrow>
          if protected_in fs p then (fs, Some PermissionError)
          else if p = [] then (remove_tree fs p, Some OSError)
          else (remove_tree fs p, None))"

definition demo_unlink :: "demo_fs \<Rightarrow> dpath \<Rightarrow> demo_fs \<times> exc option" where
  "demo_unlink fs p =
     (case os_stat fs p of
        Inl e \<Rightarrow> (fs, Some e)
      | Inr Dir \<Rightarrow> (fs, Some IsADirectoryError)
      | Inr (File n) \<Rightarrow> (remove_tree fs p, None))"

text \<open>
  \<open>shutil.copyfile\<close>, the core of \<open>copy2\<close>: the source is opened for reading, the
  destination for writing; an existing file is overwritten.
\<close>

definition demo_copyfile :: "demo_fs \<Rightarrow> dpath \<Rightarrow> dpath \<Rightarrow> demo_fs \<times> exc option" where
  "demo_copyfile fs src dst =
     (if src = dst \<and> os_path_exists fs src then (fs, Some SameFileError)
      else case os_stat fs src of
             Inl e \<Rightarrow> (fs, Some e)
           | Inr Dir \<Rightarrow> (fs, Some IsADirectoryError)
           | Inr (File n) \<Rightarrow>
               (case os_stat fs dst of
                  Inr Dir \<Rightarrow> (fs, Some IsADirectoryError)
                | Inr (File m) \<Rightarrow>
                    (fs\<lparr>nodes := map (\<lambda>(x, k). if x = dst then (x, File n) else (x, k))
                                   (nodes fs)\<rparr>, None)
                | Inl e \<Rightarrow>
                    if e \<noteq> FileNotFoundError then (fs, Some e)
                    else if demo_lookup fs (butlast dst) = Some Dir
                    then (fs\<lparr>nodes := nodes fs @ [(dst, File n)]\<rparr>, None)
                    else (fs, Some FileNotFoundError)))"

text \<open>
  \<open>shutil.copy2(src, dst)\<close>: when \<open>dst\<close> is a directory, the file is copied into it,
  under the base name of \<open>src\<close>.
\<close>

definition demo_copy2 :: "demo_fs \<Rightarrow> dpath \<Rightarrow> dpath \<Rightarrow> demo_fs \<times> exc option" where
  "demo_copy2 fs src dst =
     demo_copyfile fs src (if os_path_isdir fs dst then dst @ [demo_name src] else dst)"

text \<open>
  \<open>shutil.copytree(src, dst)\<close>: \<open>src\<close> is enumerated, then \<open>os.makedirs(dst)\<close> makes
  \<open>dst\<close> with its missing parents and fails when \<open>dst\<close> exists, then the tree is copied.
\<close>

definition demo_copytree :: "demo_fs \<Rightarrow> dpath \<Rightarrow> dpath \<Rightarrow> demo_fs \<times> exc option" where
  "demo_copytree fs src dst =
     (case os_stat fs src of
        Inl e \<Rightarrow> (fs, Some e)
      | Inr (File n) \<Rightarrow> (fs, Some NotADirectoryError)
      | Inr Dir \<Rightarrow>
          if src \<in> set (unreadable fs) then (fs, Some PermissionError)
          else
            (case os_stat fs dst of
               Inr m \<Rightarrow> (fs, Some FileExistsError)
             | Inl e \<Rightarrow>
                 if e \<noteq> FileNotFoundError then (fs, Some e)
                 else if below src dst \<or> protected_in fs src then (fs, Some ShutilError)
                 else
                   (fs\<lparr>nodes := nodes fs @
                       map (\<lambda>a. (a, Dir))
                         (filter (\<lambda>a. demo_lookup fs a = None)
                            (map (\<lambda>k. take k dst) [1..<length dst])) @
                       (dst, Dir) #
                       map (\<lambda>(x, n). (rebase src dst x, n))
                         (filter (\<lambda>(x, n). inside src x) (nodes fs))\<rparr>, None)))"

text \<open>
  \<open>shutil.move(src, dst)\<close>: when \<open>dst\<close> is a directory, \<open>src\<close> is moved into it, under
  its base name, which must not exist there. The move is an \<open>os.rename\<close>; when that
  raises, a directory is copied with \<open>copytree\<close> and removed with \<open>rmtree\<close> (unless the
  destination lies in it), and a file is copied with \<open>copy2\<close> and removed.
\<close>

definition demo_move :: "demo_fs \<Rightarrow> dpath \<Rightarrow> dpath \<Rightarrow> demo_fs \<times> exc option" where
  "demo_move fs src dst =
     (if os_path_isdir fs dst \<and> src = dst then os_rename fs src dst
      else
        (let real_dst = (if os_path_isdir fs dst then dst @ [demo_name src] else dst)
         in if os_path_isdir fs dst \<and> os_path_exists fs real_dst then (fs, Some ShutilError)
            else
              (case os_rename fs src real_dst of
                 (fs', None) \<Rightarrow> (fs', None)
               | (fs', Some e) \<Rightarrow>
                   if os_path_isdir fs src then
                     (if below src real_dst then (fs, Some ShutilError)
                      else
                        (case demo_copytree fs src real_dst of
                           (fs2, Some e2) \<Rightarrow> (fs2, Some e2)
                         | (fs2, None) \<Rightarrow> demo_rmtree fs2 src))
                   else
                     (case demo_copy2 fs src real_dst of
                        (fs2, Some e2) \<Rightarrow> (fs2, Some e2)
                      | (fs2, None) \<Rightarrow> demo_unlink fs2 src))))"

definition demo_perform :: "demo_fs \<Rightarrow> dpath fs_call \<Rightarrow> demo_fs \<times> exc option" where
  "demo_perform fs0 call =
     (let fs = fs0\<lparr>journal := journal fs0 @ [call]\<rparr>
      in case call of
           Touch p \<Rightarrow> demo_create fs p (File 0)
         | Mkdir p \<Rightarrow> demo_create fs p Dir
         | Rename p q \<Rightarrow> os_rename fs p q
         | Rmtree p \<Rightarrow> demo_rmtree fs p
         | Unlink p \<Rightarrow> demo_unlink fs p
         | Move p q \<Rightarrow> demo_move fs p q
         | Copytree p q \<Rightarrow> demo_copytree fs p q
         | Copy2 p q \<Rightarrow> demo_copy2 fs p q)"

definition demo_env :: "(dpath, demo_fs) env" where
  "demo_env =
     \<lparr>path_of_str = demo_path_of_str,
      path_name = demo_name,
      path_suffix = demo_suffix,
      path_parent = butlast,
      path_join = demo_join,
      path_expanduser = demo_expanduser,
      path_iterdir = demo_iterdir,
      path_is_dir = demo_is_dir,
      path_exists = demo_exists,
      path_stat = demo_stat,
      strftime_mtime = (\<lambda>t. Inr ''1970-01-01 00:00''),
      filemode = (\<lambda>m. if m = 16877 then ''drwxr-xr-x'' else ''-rw-r--r--''),
      fs_perform = demo_perform\<rparr>"

subsection \<open>The files of the examples\<close>

text \<open>
  The directory \<open>/home/u\<close> with a hidden file, a directory \<open>Docs\<close>, which holds a
  directory \<open>notes\<close>, and the files \<open>a.txt\<close>, \<open>B.txt\<close> and \<open>notes\<close>; the directory
  \<open>/secret\<close>, which may not be read; the directory \<open>/mnt\<close>, which may be read but not
  searched. Then the application before and after its first listing of \<open>/home/u\<close>.
\<close>

definition demo_files :: demo_fs where
  "demo_files =
     \<lparr>nodes =
        [([''home''], Dir),
         ([''home'', ''u''], Dir),
         ([''home'', ''u'', ''notes''], File 5),
         ([''home'', ''u'', ''B.txt''], File 7),
         ([''home'', ''u'', ''.hidden''], File 3),
         ([''home'', ''u'', ''Docs''], Dir),
         ([''home'', ''u'', ''a.txt''], File 12),
         ([''home'', ''u'', ''Docs'', ''notes''], Dir),
         ([''secret''], Dir),
         ([''secret'', ''key''], File 1),
         ([''mnt''], Dir),
         ([''mnt'', ''a''], File 1),
         ([''mnt'', ''.b''], File 1)],
      unreadable = [[''secret'']],
      unsearchable = [[''mnt'']],
      journal = []\<rparr>"

definition demo_start :: "dpath app" where
  "demo_start =
     \<lparr>current_dir = [''home'', ''u''],
      show_hidden = False,
      clipboard = None,
      clipboard_op = ''copy'',
      table_rows = [],
      cursor_row = 0,
      row_entries = None,
      status = StEmpty,
      path_bar = None,
      tree_path = [''home'', ''u'']\<rparr>"

definition demo_listed :: "dpath app" where
  "demo_listed = fst (refresh_table demo_env demo_files demo_start)"

text \<open>
  The application after \<open>a.txt\<close> (row 1) has been copied to the clipboard, and a
  state moved into \<open>/home/u/Docs\<close>.
\<close>

definition demo_copied :: "dpath app" where
  "demo_copied = action_copy_item demo_env (demo_listed\<lparr>cursor_row := 1\<rparr>)"

definition demo_in_docs :: "dpath app \<Rightarrow> dpath app" where
  "demo_in_docs app = app\<lparr>current_dir := [''home'', ''u'', ''Docs'']\<rparr>"

text \<open>
  The filesystem and the application after \<open>Docs\<close> (row 0) has been deleted with the
  delete command; the application after going to the unreadable \<open>/secret\<close>; and the
  filesystem after \<open>a.txt\<close> has been removed while it is still listed.
\<close>

definition demo_after_delete :: "demo_fs \<times> dpath app" where
  "demo_after_delete = action_delete demo_env demo_files demo_listed True"

definition demo_in_secret :: "dpath app" where
  "demo_in_secret =
     fst (action_goto demo_env demo_files demo_listed (InputModal_confirm ''/secret''))"

definition demo_stale :: demo_fs where
  "demo_stale = fst (fs_perform demo_env demo_files (Unlink [''home'', ''u'', ''a.txt'']))"


definition demo_entered_docs :: "dpath app" where
  "demo_entered_docs =
     fst (on_dir_selected demo_env demo_files demo_listed [''home'', ''u'', ''Docs''])"

definition demo_docs_removed :: demo_fs where
  "demo_docs_removed = remove_tree demo_files [''home'', ''u'', ''Docs'']"

definition demo_locked :: demo_fs where
  "demo_locked = demo_files\<lparr>unsearchable := [''home'', ''u''] # unsearchable demo_files\<rparr>"

section \<open>Notions used in the statements\<close>

text \<open>
  An entry is visible when hidden entries are shown or its name does not start with
  a dot. An entry is a directory when \<open>is_dir\<close> returns \<open>True\<close> for it.
\<close>

definition visible :: "('p, 'fs) env \<Rightarrow> bool \<Rightarrow> 'p \<Rightarrow> bool" where
  "visible env hidden p = (hidden \<or> \<not> startswith_dot (path_name env p))"

definition is_directory :: "('p, 'fs) env \<Rightarrow> 'fs \<Rightarrow> 'p \<Rightarrow> bool" where
  "is_directory env fs p = (path_is_dir env fs p = Inr True)"

text \<open>
  The fields of the row of an entry: they depend on the entry and on the filesystem
  only.
\<close>

definition row_of :: "('p, 'fs) env \<Rightarrow> 'fs \<Rightarrow> 'p \<Rightarrow> table_row" where
  "row_of env fs p =
     \<lparr>cell_icon = (if is_directory env fs p then [0x1F4C1] else file_icon env p),
      cell_name = path_name env p,
      cell_size = (case size_text env fs p of Inr sz \<Rightarrow> sz | Inl e \<Rightarrow> SizeUnknown),
      cell_modified = file_modified env fs p,
      cell_perms = file_permissions env fs p\<rparr>"

text \<open>
  Names without their case: every capital letter is replaced by its small letter.
  The capital letters among the code points below 256 are \<open>A\<close> to \<open>Z\<close> and the
  letters at 192 to 214 and 216 to 222, whose small letters are 32 higher.
\<close>

definition capitals :: string where
  "capitals = ''ABCDEFGHIJKLMNOPQRSTUVWXYZ'' @ map char_of ([192..<215] @ [216..<223])"

definition smalls :: string where
  "smalls = ''abcdefghijklmnopqrstuvwxyz'' @ map char_of ([224..<247] @ [248..<255])"

definition fold_case :: "char \<Rightarrow> char" where
  "fold_case c = (case map_of (zip capitals smalls) c of Some d \<Rightarrow> d | None \<Rightarrow> c)"

definition caseless :: "string \<Rightarrow> string" where
  "caseless s = map fold_case s"

text \<open>
  The order of a listing: a directory before everything that is not one, and inside
  the two groups the names in ascending order, compared without their case (as lists of
  code points).
\<close>

definition listing_le :: "('p, 'fs) env \<Rightarrow> 'fs \<Rightarrow> 'p \<Rightarrow> 'p \<Rightarrow> bool" where
  "listing_le env fs p q =
     ((is_directory env fs p \<and> \<not> is_directory env fs q) \<or>
      (is_directory env fs p = is_directory env fs q \<and>
       caseless (path_name env p) \<le> caseless (path_name env q)))"

section \<open>Names without their case\<close>

text \<open>
  \<open>lower\<close>, as the code computes it, is the replacement of the capital letters of the
  table by their small letters.
\<close>

lemma char_eq_char_of: "(c = char_of (n::nat)) = (n mod 256 = of_char c)"
  using char_of_eq_iff [of n c] by (auto simp: take_bit_eq_mod)

lemma capitals_codes:
  "capitals = map char_of ([65..<91] @ [192..<215] @ [216..<223 :: nat])"
  by (simp add: capitals_def upt_rec [of "numeral m" for m] char_eq_char_of)

lemma smalls_of_capitals:
  "smalls = map (\<lambda>c. char_of (of_char c + 32 :: nat)) capitals"
  by (simp add: capitals_def smalls_def upt_rec [of "numeral m" for m] char_eq_char_of)

lemma in_capitals:
  "c \<in> set capitals \<longleftrightarrow>
     (65 \<le> (of_char c :: nat) \<and> (of_char c :: nat) \<le> 90) \<or>
     (192 \<le> (of_char c :: nat) \<and> (of_char c :: nat) \<le> 222 \<and> (of_char c :: nat) \<noteq> 215)"
proof
  assume "c \<in> set capitals"
  then have "c \<in> char_of ` ({65..<91} \<union> {192..<215} \<union> {216..<223 :: nat})"
    by (simp only: capitals_codes set_map set_append set_upt image_Un Un_assoc)
  then obtain n :: nat where n: "c = char_of n" "n \<in> {65..<91} \<union> {192..<215} \<union> {216..<223}"
    by blast
  then have "n < 256" by auto
  then have "of_char c = n" using n(1) by simp
  with n(2) show "(65 \<le> (of_char c :: nat) \<and> (of_char c :: nat) \<le> 90) \<or>
     (192 \<le> (of_char c :: nat) \<and> (of_char c :: nat) \<le> 222 \<and> (of_char c :: nat) \<noteq> 215)"
    by auto
next
  assume a: "(65 \<le> (of_char c :: nat) \<and> (of_char c :: nat) \<le> 90) \<or>
     (192 \<le> (of_char c :: nat) \<and> (of_char c :: nat) \<le> 222 \<and> (of_char c :: nat) \<noteq> 215)"
  have "c = char_of (of_char c :: nat)" by simp
  moreover from a have "(of_char c :: nat) \<in> {65..<91} \<union> {192..<215} \<union> {216..<223}" by auto
  ultimately have "c \<in> char_of ` ({65..<91} \<union> {192..<215} \<union> {216..<223 :: nat})"
    by (rule image_eqI)
  then show "c \<in> set capitals"
    by (simp only: capitals_codes set_map set_append set_upt image_Un Un_assoc)
qed

lemma fold_case_capitals:
  "fold_case c = (if c \<in> set capitals then char_of (of_char c + 32 :: nat) else c)"
  by (simp add: fold_case_def smalls_of_capitals map_of_zip_map)

lemma lower_char_fold_case: "lower_char c = fold_case c"
  by (simp add: fold_case_capitals in_capitals lower_char_def Let_def)

lemma lower_caseless: "lower s = caseless s"
  by (simp add: lower_def caseless_def lower_char_fold_case)

section \<open>The loop of the listing builder\<close>

lemma table_row_of_row_of:
  "table_row_of env fs p = Inr row \<Longrightarrow> row = row_of env fs p"
  by (auto simp: table_row_of_def row_of_def is_directory_def split: sum.splits)

lemma cell_name_row_of [simp]: "cell_name (row_of env fs p) = path_name env p"
  by (simp add: row_of_def)

lemma add_rows_shape:
  "add_rows env fs hidden xs (rows, ents, count) = ((rows', ents', count'), raised) \<Longrightarrow>
   \<exists>n \<le> length xs.
     ents' = ents @ filter (visible env hidden) (take n xs) \<and>
     rows' = rows @ map (row_of env fs) (filter (visible env hidden) (take n xs)) \<and>
     count' = count + length (filter (visible env hidden) (take n xs)) \<and>
     (raised = None \<longrightarrow> n = length xs)"
proof (induction xs arbitrary: rows ents count)
  case Nil
  then show ?case by simp
next
  case (Cons x xs)
  show ?case
  proof (cases "\<not> hidden \<and> startswith_dot (path_name env x)")
    case True
    with Cons.prems
    have "add_rows env fs hidden xs (rows, ents, count) = ((rows', ents', count'), raised)"
      by simp
    from Cons.IH [OF this] obtain n where n: "n \<le> length xs"
      "ents' = ents @ filter (visible env hidden) (take n xs)"
      "rows' = rows @ map (row_of env fs) (filter (visible env hidden) (take n xs))"
      "count' = count + length (filter (visible env hidden) (take n xs))"
      "raised = None \<longrightarrow> n = length xs"
      by blast
    from True have "\<not> visible env hidden x" by (simp add: visible_def)
    with n show ?thesis by (intro exI [of _ "Suc n"]) simp
  next
    case False
    then have vis: "visible env hidden x" by (auto simp: visible_def)
    show ?thesis
    proof (cases "table_row_of env fs x")
      case (Inl e)
      with False Cons.prems have "rows' = rows" "ents' = ents" "count' = count" "raised = Some e"
        by auto
      then show ?thesis by (intro exI [of _ 0]) simp
    next
      case (Inr row)
      with False Cons.prems
      have "add_rows env fs hidden xs (rows @ [row], ents @ [x], count + 1) =
            ((rows', ents', count'), raised)"
        by auto
      from Cons.IH [OF this] obtain n where n: "n \<le> length xs"
        "ents' = (ents @ [x]) @ filter (visible env hidden) (take n xs)"
        "rows' = (rows @ [row]) @
                 map (row_of env fs) (filter (visible env hidden) (take n xs))"
        "count' = (count + 1) + length (filter (visible env hidden) (take n xs))"
        "raised = None \<longrightarrow> n = length xs"
        by blast
      from Inr have "row = row_of env fs x" by (rule table_row_of_row_of)
      with n vis show ?thesis by (intro exI [of _ "Suc n"]) simp
    qed
  qed
qed

lemma add_rows_complete:
  "\<forall>p \<in> set xs. visible env hidden p \<longrightarrow> (\<exists>row. table_row_of env fs p = Inr row) \<Longrightarrow>
   add_rows env fs hidden xs (rows, ents, count) =
     ((rows @ map (row_of env fs) (filter (visible env hidden) xs),
       ents @ filter (visible env hidden) xs,
       count + length (filter (visible env hidden) xs)), None)"
proof (induction xs arbitrary: rows ents count)
  case Nil
  then show ?case by simp
next
  case (Cons x xs)
  show ?case
  proof (cases "visible env hidden x")
    case False
    with Cons show ?thesis by (simp add: visible_def)
  next
    case True
    with Cons.prems obtain row where row: "table_row_of env fs x = Inr row" by auto
    then have "row = row_of env fs x" by (rule table_row_of_row_of)
    with True row Cons show ?thesis by (auto simp: visible_def)
  qed
qed

lemma add_rows_all_rows:
  "add_rows env fs True xs acc = (res, None) \<Longrightarrow> p \<in> set xs \<Longrightarrow>
   \<exists>row. table_row_of env fs p = Inr row"
proof (induction xs arbitrary: acc)
  case Nil
  then show ?case by simp
next
  case (Cons x xs)
  obtain rows ents count where acc: "acc = (rows, ents, count)" by (cases acc) auto
  show ?case
  proof (cases "table_row_of env fs x")
    case (Inl e)
    with Cons.prems acc show ?thesis by simp
  next
    case (Inr row)
    with Cons.prems acc
    have "add_rows env fs True xs (rows @ [row], ents @ [x], count + 1) = (res, None)"
      by simp
    from Cons.IH [OF this] Inr Cons.prems(2) show ?thesis by auto
  qed
qed

section \<open>The sort of the listing builder\<close>

text \<open>
  When every key can be computed, the entries are sorted by the key
  \<open>(not is_dir, lower name)\<close>; the order of the keys is the order of a listing.
\<close>

lemma sort_keys_Inr:
  "sort_keys env fs xs = Inr keyed \<Longrightarrow>
   keyed = map (\<lambda>p. ((\<not> is_directory env fs p, lower (path_name env p)), p)) xs"
  by (induction xs arbitrary: keyed) (auto simp: is_directory_def split: sum.splits)

lemma sort_keys_Inl:
  "sort_keys env fs xs = Inl e \<Longrightarrow> \<exists>p \<in> set xs. path_is_dir env fs p = Inl e"
  by (induction xs) (auto split: sum.splits)

lemma sort_keys_total:
  "\<forall>p \<in> set xs. \<exists>d. path_is_dir env fs p = Inr d \<Longrightarrow> \<exists>keyed. sort_keys env fs xs = Inr keyed"
  by (induction xs) (auto split: sum.splits)

lemma insort_key_fst_pair:
  "insort_key fst (k x, x) (map (\<lambda>p. (k p, p)) ys) = map (\<lambda>p. (k p, p)) (insort_key k x ys)"
  by (induction ys) simp_all

lemma sort_key_fst_pair:
  "sort_key fst (map (\<lambda>p. (k p, p)) xs) = map (\<lambda>p. (k p, p)) (sort_key k xs)"
  by (induction xs) (simp_all add: insort_key_fst_pair)

lemma sorted_entries_Inr:
  assumes "sorted_entries env fs dir = Inr entries"
  shows "\<exists>listed. path_iterdir env fs dir = Inr listed \<and>
           entries = sort_key (\<lambda>p. (\<not> is_directory env fs p, lower (path_name env p))) listed"
proof -
  from assms obtain listed keyed where l: "path_iterdir env fs dir = Inr listed"
    and k: "sort_keys env fs listed = Inr keyed" and e: "entries = map snd (sort_key fst keyed)"
    by (auto simp: sorted_entries_def split: sum.splits)
  from sort_keys_Inr [OF k] e
  have "entries = sort_key (\<lambda>p. (\<not> is_directory env fs p, lower (path_name env p))) listed"
    by (simp add: sort_key_fst_pair comp_def)
  with l show ?thesis by blast
qed

lemma listing_key_le:
  "((\<not> is_directory env fs p, lower (path_name env p)) \<le>
    (\<not> is_directory env fs q, lower (path_name env q))) = listing_le env fs p q"
  by (auto simp: listing_le_def less_eq_prod_def lower_caseless)

lemma sorted_entries_sorted:
  assumes "sorted_entries env fs dir = Inr entries"
  shows "sorted_wrt (listing_le env fs) entries"
proof -
  let ?k = "\<lambda>p. (\<not> is_directory env fs p, lower (path_name env p))"
  from sorted_entries_Inr [OF assms] obtain listed where e: "entries = sort_key ?k listed"
    by blast
  have "sorted (map ?k (sort_key ?k listed))" by (rule sorted_sort_key)
  then have "sorted_wrt (\<lambda>x y. ?k x \<le> ?k y) (sort_key ?k listed)" by (simp only: sorted_map)
  then have "sorted_wrt (listing_le env fs) (sort_key ?k listed)"
    by (simp only: listing_key_le)
  with e show ?thesis by simp
qed

lemma sorted_entries_set:
  assumes "sorted_entries env fs dir = Inr entries" and "path_iterdir env fs dir = Inr listed"
  shows "set entries = set listed" and "length entries = length listed"
  using sorted_entries_Inr [OF assms(1)] assms(2) by auto

lemma sorted_wrt_filter_take:
  "sorted_wrt R xs \<Longrightarrow> sorted_wrt R (filter P (take n xs))"
  by (simp add: sorted_wrt_filter sorted_wrt_take)

section \<open>The listing builder as a whole\<close>

lemma refresh_table_listing:
  assumes it: "sorted_entries env fs (current_dir app) = Inr entries"
    and ar: "add_rows env fs (show_hidden app) entries ([], [], 0) =
             ((rows, ents, count), raised)"
  shows "table_rows (fst (refresh_table env fs app)) = rows"
    and "row_entries (fst (refresh_table env fs app)) = Some ents"
    and "snd (refresh_table env fs app) = raised"
  using it ar by (simp_all add: refresh_table_def set_status_def Let_def split: option.splits)

lemma refresh_table_denied:
  assumes "sorted_entries env fs (current_dir app) = Inl PermissionError"
  shows "refresh_table env fs app =
           (app\<lparr>table_rows := [], cursor_row := 0, status := StPermissionDenied\<rparr>, None)"
  using assms by (simp add: refresh_table_def set_status_def Let_def)

lemma refresh_table_raises:
  assumes "sorted_entries env fs (current_dir app) = Inl e" and "e \<noteq> PermissionError"
  shows "refresh_table env fs app = (app\<lparr>table_rows := [], cursor_row := 0\<rparr>, Some e)"
  using assms by (simp add: refresh_table_def Let_def)

lemma refresh_table_keeps:
  "current_dir (fst (refresh_table env fs app)) = current_dir app"
  "show_hidden (fst (refresh_table env fs app)) = show_hidden app"
  "clipboard (fst (refresh_table env fs app)) = clipboard app"
  "clipboard_op (fst (refresh_table env fs app)) = clipboard_op app"
  by (simp_all add: refresh_table_def set_status_def Let_def
        split: sum.splits option.splits prod.splits)

lemma visible_simps:
  "visible env True = (\<lambda>p. True)"
  "visible env False = (\<lambda>p. \<not> startswith_dot (path_name env p))"
  by (simp_all add: fun_eq_iff visible_def)

section \<open>Running the example\<close>

text \<open>
  The facts that evaluate the example environment and the model on concrete inputs, and
  the first listing of \<open>/home/u\<close>: the directory first, the hidden file left out, the
  names in order without regard to their case.
\<close>

lemmas demo_simps =
  demo_env_def demo_files_def demo_start_def
  demo_path_of_str_def components_def split_slash_def demo_name_def demo_suffix_def
  demo_join_def demo_expanduser_def demo_lookup_def demo_exists_def demo_is_dir_def
  demo_iterdir_def demo_stat_def below_def inside_def denied_def under_file_def os_stat_def
  os_path_isdir_def os_path_exists_def has_children_def protected_in_def rebase_def
  remove_tree_def relocate_def demo_create_def os_rename_def demo_rmtree_def demo_unlink_def
  demo_copyfile_def demo_copy2_def demo_copytree_def demo_move_def demo_perform_def

lemmas model_simps =
  refresh_table_def sorted_entries_def lower_def lower_char_def size_text_def
  table_row_of_def file_icon_def icons_def file_modified_def file_permissions_def
  set_status_def Let_def char_of_eq_iff take_bit_eq_mod less_char_def less_eq_char_def

lemma demo_listed_eq: "demo_listed =
   \<lparr>current_dir = [''home'', ''u''], show_hidden = False, clipboard = None,
    clipboard_op = ''copy'',
    table_rows =
      [\<lparr>cell_icon = [0x1F4C1], cell_name = ''Docs'', cell_size = SizeDash,
        cell_modified = ''1970-01-01 00:00'', cell_perms = ''drwxr-xr-x''\<rparr>,
       \<lparr>cell_icon = [0x1F4C4], cell_name = ''a.txt'', cell_size = SizeHuman 12,
        cell_modified = ''1970-01-01 00:00'', cell_perms = ''-rw-r--r--''\<rparr>,
       \<lparr>cell_icon = [0x1F4C4], cell_name = ''B.txt'', cell_size = SizeHuman 7,
        cell_modified = ''1970-01-01 00:00'', cell_perms = ''-rw-r--r--''\<rparr>,
       \<lparr>cell_icon = [0x1F4C4], cell_name = ''notes'', cell_size = SizeHuman 5,
        cell_modified = ''1970-01-01 00:00'', cell_perms = ''-rw-r--r--''\<rparr>],
    cursor_row = 0,
    row_entries = Some [[''home'', ''u'', ''Docs''], [''home'', ''u'', ''a.txt''],
                        [''home'', ''u'', ''B.txt''], [''home'', ''u'', ''notes'']],
    status = StItems 4 [''home'', ''u''] False, path_bar = None,
    tree_path = [''home'', ''u'']\<rparr>"
  by (simp add: demo_listed_def demo_simps model_simps)

section \<open>Facts about the commands\<close>

lemma refresh_table_keepsD:
  assumes "refresh_table env fs app = (app', raised)"
  shows "current_dir app' = current_dir app" and "show_hidden app' = show_hidden app"
    and "clipboard app' = clipboard app" and "clipboard_op app' = clipboard_op app"
  using refresh_table_keeps [of env fs app] assms by simp_all

lemma try_call_refresh_fst:
  "fst (try_call_refresh env app ok on_exc outcome) = fst outcome"
  by (simp add: try_call_refresh_def split: prod.splits option.splits)

lemma try_call_refresh_raised:
  "try_call_refresh env app ok on_exc (fs', Some e) = (fs', app\<lparr>status := on_exc e\<rparr>)"
  by (simp add: try_call_refresh_def set_status_def)

lemma paste_rejected_empty:
  "clipboard app = None \<Longrightarrow>
   action_paste_item env fs app = (fs, app\<lparr>status := StClipboardEmpty\<rparr>)"
  by (simp add: action_paste_item_def set_status_def)

lemma paste_rejected_same:
  "clipboard app = Some src \<Longrightarrow> path_join env (current_dir app) (path_name env src) = src \<Longrightarrow>
   action_paste_item env fs app = (fs, app\<lparr>status := StSameLocation\<rparr>)"
  by (simp add: action_paste_item_def set_status_def)

lemma paste_keeps_copy:
  assumes "clipboard_op app \<noteq> ''cut''"
  shows "clipboard (snd (action_paste_item env fs app)) = clipboard app"
    and "clipboard_op (snd (action_paste_item env fs app)) = clipboard_op app"
  using assms
  by (auto simp: action_paste_item_def set_status_def Let_def
      split: option.splits prod.splits sum.splits dest: refresh_table_keepsD)

lemma paste_times_keeps_copy:
  "clipboard_op app \<noteq> ''cut'' \<Longrightarrow>
   clipboard (snd (paste_times n env fs app)) = clipboard app \<and>
   clipboard_op (snd (paste_times n env fs app)) = clipboard_op app"
proof (induction n arbitrary: fs app)
  case 0
  then show ?case by simp
next
  case (Suc n)
  obtain fs' app' where p: "action_paste_item env fs app = (fs', app')"
    by (cases "action_paste_item env fs app")
  with paste_keeps_copy [OF Suc.prems, of env fs]
  have k: "clipboard app' = clipboard app" "clipboard_op app' = clipboard_op app" by simp_all
  with Suc.prems have "clipboard_op app' \<noteq> ''cut''" by simp
  from Suc.IH [OF this, of fs'] k p show ?case by simp
qed

lemma paste_cut_clears:
  assumes "clipboard app = Some x" and "clipboard_op app = ''cut''"
    and "path_join env (current_dir app) (path_name env x) \<noteq> x"
    and "snd (fs_perform env fs (Move x (path_join env (current_dir app) (path_name env x)))) = None"
  shows "clipboard (snd (action_paste_item env fs app)) = None"
  using assms
  by (auto simp: action_paste_item_def set_status_def Let_def assign_clipboard_def
        watch_clipboard_def
      split: option.splits prod.splits dest: refresh_table_keepsD)

lemmas action_simps =
  selected_entry_def action_copy_item_def assign_clipboard_def watch_clipboard_def
  action_paste_item_def truthy_def

text \<open>The copy command puts the selected entry into the clipboard, to be copied.\<close>

lemma copy_item_sets_clipboard:
  "selected_entry app = Some entry \<Longrightarrow>
   clipboard (action_copy_item env app) = Some entry \<and>
   clipboard_op (action_copy_item env app) = ''copy''"
  by (simp add: action_copy_item_def assign_clipboard_def watch_clipboard_def set_status_def
      split: option.splits)

lemma demo_copied_eq:
  "demo_copied = demo_listed
     \<lparr>cursor_row := 1, clipboard := Some [''home'', ''u'', ''a.txt''],
      status := StClipboard False ''a.txt''\<rparr>"
  by (simp add: demo_copied_def demo_listed_eq action_simps demo_env_def demo_name_def
        set_status_def)

lemma strip_padded:
  assumes ws1: "\<forall>c \<in> set ws1. isspace c" and ws2: "\<forall>c \<in> set ws2. isspace c"
    and core: "core = [] \<or> (\<not> isspace (hd core) \<and> \<not> isspace (last core))"
  shows "strip (ws1 @ core @ ws2) = core"
proof (cases core)
  case Nil
  have d: "dropWhile isspace (ws1 @ ws2) = []"
    using ws1 ws2 by (intro dropWhile_eq_Nil_conv [THEN iffD2]) auto
  have "strip (ws1 @ ws2) = []"
    unfolding strip_def d by simp
  with Nil show ?thesis by simp
next
  case (Cons c cs)
  with core have h: "\<not> isspace c" and l: "\<not> isspace (last core)" by auto
  have "dropWhile isspace (ws1 @ core @ ws2) = dropWhile isspace (core @ ws2)"
    using ws1 by (intro dropWhile_append2) auto
  also from h Cons have "\<dots> = core @ ws2" by simp
  finally have 1: "dropWhile isspace (ws1 @ core @ ws2) = core @ ws2" .
  have "dropWhile isspace (rev (core @ ws2)) = dropWhile isspace (rev ws2 @ rev core)"
    by simp
  also have "\<dots> = dropWhile isspace (rev core)"
    using ws2 by (intro dropWhile_append2) auto
  also have "\<dots> = rev core"
  proof (cases "rev core")
    case Nil
    then show ?thesis by simp
  next
    case (Cons d ds)
    then have "d = last core" by (metis hd_rev list.sel(1) rev_rev_ident)
    with l have "dropWhile isspace (d # ds) = d # ds" by simp
    then show ?thesis unfolding Cons .
  qed
  finally show ?thesis using 1 by (simp add: strip_def)
qed

text \<open>Every text is whitespace, a core of this kind, and whitespace.\<close>

lemma input_decomposition:
  "\<exists>ws1 core ws2. s = ws1 @ core @ ws2 \<and>
     (\<forall>c \<in> set ws1. isspace c) \<and> (\<forall>c \<in> set ws2. isspace c) \<and>
     (core = [] \<or> (\<not> isspace (hd core) \<and> \<not> isspace (last core)))"
proof -
  define ws1 where "ws1 = takeWhile isspace s"
  define rest where "rest = dropWhile isspace s"
  define ws2 where "ws2 = rev (takeWhile isspace (rev rest))"
  define core where "core = rev (dropWhile isspace (rev rest))"
  have s: "s = ws1 @ rest" by (simp add: ws1_def rest_def)
  have "core @ ws2 = rev (takeWhile isspace (rev rest) @ dropWhile isspace (rev rest))"
    unfolding core_def ws2_def by (simp only: rev_append)
  also have "\<dots> = rev (rev rest)" by (simp only: takeWhile_dropWhile_id)
  finally have rest: "rest = core @ ws2" by simp
  have a: "\<forall>c \<in> set ws1. isspace c"
    by (auto simp: ws1_def dest: set_takeWhileD)
  have b: "\<forall>c \<in> set ws2. isspace c"
    by (auto simp: ws2_def dest: set_takeWhileD)
  have c: "core = [] \<or> (\<not> isspace (hd core) \<and> \<not> isspace (last core))"
  proof (cases "core = []")
    case True
    then show ?thesis by simp
  next
    case False
    then have ne: "dropWhile isspace (rev rest) \<noteq> []" by (simp add: core_def)
    then have "\<not> isspace (hd (dropWhile isspace (rev rest)))" by (rule hd_dropWhile)
    with ne have l: "\<not> isspace (last core)" by (simp add: core_def last_rev)
    from False rest have "rest \<noteq> []" by simp
    then have "\<not> isspace (hd rest)" unfolding rest_def by (rule hd_dropWhile)
    with False rest have "\<not> isspace (hd core)" by simp
    with l show ?thesis by simp
  qed
  from s rest a b c show ?thesis by blast
qed

section \<open>Ordering of a listing\<close>

text \<open>
  Claim C6. A listing is built when the sorted enumeration of the current directory is
  obtained, that is, when neither the enumeration nor a directory test of the sort
  raises. Then the entries that \<open>refresh_table\<close> puts into \<open>_row_entries\<close> are ordered
  by \<open>listing_le\<close>: every directory comes before every entry that is not a directory,
  and inside the directories and inside the others the names ascend when compared
  without their case. The rows of the table carry the names of these entries, in the
  same order. When the sorted enumeration raises, no listing is built: the table is
  empty.
\<close>

theorem listing_dirs_first_then_by_name:
  "(sorted_entries env fs (current_dir app) = Inr entries \<longrightarrow>
      (\<exists>ents. row_entries (fst (refresh_table env fs app)) = Some ents \<and>
         sorted_wrt (listing_le env fs) ents \<and>
         map cell_name (table_rows (fst (refresh_table env fs app))) =
           map (path_name env) ents)) \<and>
   (sorted_entries env fs (current_dir app) = Inl e \<longrightarrow>
      table_rows (fst (refresh_table env fs app)) = [])"
proof (intro conjI impI)
  assume se: "sorted_entries env fs (current_dir app) = Inr entries"
  obtain rows ents count raised
    where ar: "add_rows env fs (show_hidden app) entries ([], [], 0) =
               ((rows, ents, count), raised)"
    by (cases "add_rows env fs (show_hidden app) entries ([], [], 0)") auto
  from add_rows_shape [OF ar] obtain n
    where ents: "ents = filter (visible env (show_hidden app)) (take n entries)"
      and rows: "rows = map (row_of env fs)
                          (filter (visible env (show_hidden app)) (take n entries))"
    by auto
  have "sorted_wrt (listing_le env fs) ents"
    unfolding ents by (rule sorted_wrt_filter_take) (rule sorted_entries_sorted [OF se])
  moreover have "map cell_name rows = map (path_name env) ents"
    unfolding ents rows by simp
  ultimately show "\<exists>ents. row_entries (fst (refresh_table env fs app)) = Some ents \<and>
         sorted_wrt (listing_le env fs) ents \<and>
         map cell_name (table_rows (fst (refresh_table env fs app))) =
           map (path_name env) ents"
    using refresh_table_listing(1,2) [OF se ar] by simp
next
  assume "sorted_entries env fs (current_dir app) = Inl e"
  then show "table_rows (fst (refresh_table env fs app)) = []"
    by (simp add: refresh_table_def set_status_def Let_def)
qed

theorem listing_dirs_first_then_by_name_witness:
  "sorted_entries demo_env demo_files (current_dir demo_start) =
     Inr [[''home'', ''u'', ''Docs''], [''home'', ''u'', ''.hidden''],
          [''home'', ''u'', ''a.txt''], [''home'', ''u'', ''B.txt''],
          [''home'', ''u'', ''notes'']] \<and>
   row_entries (fst (refresh_table demo_env demo_files demo_start)) =
     Some [[''home'', ''u'', ''Docs''], [''home'', ''u'', ''a.txt''],
           [''home'', ''u'', ''B.txt''], [''home'', ''u'', ''notes'']] \<and>
   sorted_wrt (listing_le demo_env demo_files)
     [[''home'', ''u'', ''Docs''], [''home'', ''u'', ''a.txt''],
      [''home'', ''u'', ''B.txt''], [''home'', ''u'', ''notes'']] \<and>
   map cell_name (table_rows (fst (refresh_table demo_env demo_files demo_start))) =
     [''Docs'', ''a.txt'', ''B.txt'', ''notes''] \<and>
   sorted_entries demo_env demo_files (current_dir (demo_start\<lparr>current_dir := [''mnt'']\<rparr>)) =
     Inl PermissionError \<and>
   table_rows (fst (refresh_table demo_env demo_files (demo_start\<lparr>current_dir := [''mnt'']\<rparr>))) =
     []"
proof -
  have h: "sorted_entries demo_env demo_files (current_dir demo_start) =
     Inr [[''home'', ''u'', ''Docs''], [''home'', ''u'', ''.hidden''],
          [''home'', ''u'', ''a.txt''], [''home'', ''u'', ''B.txt''],
          [''home'', ''u'', ''notes'']]"
    by (simp add: demo_simps model_simps)
  have e: "row_entries (fst (refresh_table demo_env demo_files demo_start)) =
     Some [[''home'', ''u'', ''Docs''], [''home'', ''u'', ''a.txt''],
           [''home'', ''u'', ''B.txt''], [''home'', ''u'', ''notes'']]"
    using demo_listed_eq by (simp add: demo_listed_def)
  have n: "map (path_name demo_env)
             [[''home'', ''u'', ''Docs''], [''home'', ''u'', ''a.txt''],
              [''home'', ''u'', ''B.txt''], [''home'', ''u'', ''notes'']] =
           [''Docs'', ''a.txt'', ''B.txt'', ''notes'']"
    by (simp add: demo_simps)
  have m: "sorted_entries demo_env demo_files
             (current_dir (demo_start\<lparr>current_dir := [''mnt'']\<rparr>)) = Inl PermissionError"
    by (simp add: demo_simps model_simps)
  from h e n
    listing_dirs_first_then_by_name [of demo_env demo_files demo_start _ PermissionError]
  have 1: "sorted_wrt (listing_le demo_env demo_files)
     [[''home'', ''u'', ''Docs''], [''home'', ''u'', ''a.txt''],
      [''home'', ''u'', ''B.txt''], [''home'', ''u'', ''notes'']] \<and>
     map cell_name (table_rows (fst (refresh_table demo_env demo_files demo_start))) =
     [''Docs'', ''a.txt'', ''B.txt'', ''notes'']"
    by auto
  from m
    listing_dirs_first_then_by_name
      [of demo_env demo_files "demo_start\<lparr>current_dir := [''mnt'']\<rparr>" "[]" PermissionError]
  have 2: "table_rows (fst (refresh_table demo_env demo_files
             (demo_start\<lparr>current_dir := [''mnt'']\<rparr>))) = []"
    by blast
  from h e m 1 2 show ?thesis by simp
qed

section \<open>Hidden entries\<close>

text \<open>
  Claim C7, as stated, fails. The directory \<open>/mnt\<close> can be enumerated, and holds the
  hidden entry \<open>.b\<close>; its entries cannot be examined, so the directory test of the sort
  raises \<open>PermissionError\<close>. The listing built with \<open>show_hidden = True\<close> is empty, with
  the permission warning: the hidden entry is not included.
\<close>

theorem hidden_entry_missing_from_unsearchable_directory:
  "path_iterdir demo_env demo_files [''mnt''] = Inr [[''mnt'', ''a''], [''mnt'', ''.b'']] \<and>
   path_is_dir demo_env demo_files [''mnt'', ''a''] = Inl PermissionError \<and>
   refresh_table demo_env demo_files
     (demo_start\<lparr>current_dir := [''mnt''], show_hidden := True\<rparr>) =
     (demo_start\<lparr>current_dir := [''mnt''], show_hidden := True,
        status := StPermissionDenied\<rparr>, None) \<and>
   table_rows demo_start = []"
  by (simp add: demo_simps model_simps)

text \<open>
  Claim C7, amended. Let the listing of a directory be built with \<open>show_hidden = True\<close>
  and return normally. Then building it with \<open>show_hidden = False\<close> returns normally too,
  and its rows are the rows of the first listing without those whose name starts with a
  dot, in the same order and with the same cells. When moreover the sorted enumeration
  was obtained (neither the enumeration nor a directory test of the sort raised), the
  first listing holds every enumerated entry, each with the row of its fields, and the
  second exactly the entries whose name does not start with a dot.
\<close>

theorem hidden_entries_filtered:
  assumes "refresh_table env fs (app\<lparr>show_hidden := True\<rparr>) = (app_all, None)"
  shows "\<exists>app_vis.
           refresh_table env fs (app\<lparr>show_hidden := False\<rparr>) = (app_vis, None) \<and>
           table_rows app_vis =
             filter (\<lambda>r. \<not> startswith_dot (cell_name r)) (table_rows app_all) \<and>
           (\<forall>entries. sorted_entries env fs (current_dir app) = Inr entries \<longrightarrow>
              row_entries app_all = Some entries \<and>
              table_rows app_all = map (row_of env fs) entries \<and>
              row_entries app_vis =
                Some (filter (\<lambda>p. \<not> startswith_dot (path_name env p)) entries) \<and>
              (\<forall>listed. path_iterdir env fs (current_dir app) = Inr listed \<longrightarrow>
                 set entries = set listed \<and> length entries = length listed))"
proof (cases "sorted_entries env fs (current_dir app)")
  case (Inl e)
  with assms have e: "e = PermissionError"
    by (auto simp: refresh_table_def Let_def split: if_splits)
  from Inl e have "refresh_table env fs (app\<lparr>show_hidden := b\<rparr>) =
      (app\<lparr>show_hidden := b, table_rows := [], cursor_row := 0,
           status := StPermissionDenied\<rparr>, None)" for b
    by (simp add: refresh_table_denied)
  with assms Inl show ?thesis by auto
next
  case (Inr entries)
  obtain res raised where ar: "add_rows env fs True entries ([], [], 0) = (res, raised)"
    by (cases "add_rows env fs True entries ([], [], 0)")
  obtain rows ents count where res: "res = (rows, ents, count)" by (cases res) auto
  have it: "sorted_entries env fs (current_dir (app\<lparr>show_hidden := b\<rparr>)) = Inr entries" for b
    using Inr by simp
  from refresh_table_listing(3) [OF it [of True]] ar res assms have "raised = None"
    by simp
  with ar have ar': "add_rows env fs True entries ([], [], 0) = (res, None)"
    by simp
  have built: "\<forall>p \<in> set entries. \<exists>row. table_row_of env fs p = Inr row"
    using add_rows_all_rows [OF ar'] by blast
  then have all: "add_rows env fs True entries ([], [], 0) =
      (([] @ map (row_of env fs) (filter (visible env True) entries),
        [] @ filter (visible env True) entries,
        0 + length (filter (visible env True) entries)), None)"
    by (intro add_rows_complete) blast
  from built have vis: "add_rows env fs False entries ([], [], 0) =
      (([] @ map (row_of env fs) (filter (visible env False) entries),
        [] @ filter (visible env False) entries,
        0 + length (filter (visible env False) entries)), None)"
    by (intro add_rows_complete) blast
  have a1: "table_rows app_all = map (row_of env fs) entries"
    and a2: "row_entries app_all = Some entries"
    using refresh_table_listing(1,2) [OF it [of True]] all assms
    by (simp_all add: visible_simps)
  obtain app_vis raised'
    where rv: "refresh_table env fs (app\<lparr>show_hidden := False\<rparr>) = (app_vis, raised')"
    by (cases "refresh_table env fs (app\<lparr>show_hidden := False\<rparr>)")
  have v1: "table_rows app_vis = map (row_of env fs) (filter (visible env False) entries)"
    and v2: "row_entries app_vis = Some (filter (visible env False) entries)"
    and v3: "raised' = None"
    using refresh_table_listing [OF it [of False]] vis rv by simp_all
  have f1: "map (row_of env fs) (filter (visible env False) entries) =
        filter (\<lambda>r. \<not> startswith_dot (cell_name r)) (map (row_of env fs) entries)"
    by (simp add: filter_map comp_def visible_simps)
  have f2: "filter (visible env False) entries =
        filter (\<lambda>p. \<not> startswith_dot (path_name env p)) entries"
    by (simp add: visible_simps)
  have f3: "\<forall>listed. path_iterdir env fs (current_dir app) = Inr listed \<longrightarrow>
                 set entries = set listed \<and> length entries = length listed"
    using sorted_entries_set [OF Inr] by blast
  from rv v3 have "refresh_table env fs (app\<lparr>show_hidden := False\<rparr>) = (app_vis, None)"
    by simp
  moreover from v1 f1 a1
  have "table_rows app_vis =
          filter (\<lambda>r. \<not> startswith_dot (cell_name r)) (table_rows app_all)"
    by simp
  moreover from v2 f2
  have "row_entries app_vis =
          Some (filter (\<lambda>p. \<not> startswith_dot (path_name env p)) entries)"
    by simp
  ultimately show ?thesis
    using a1 a2 f3 Inr by auto
qed

theorem hidden_entries_filtered_witness:
  "snd (refresh_table demo_env demo_files (demo_start\<lparr>show_hidden := True\<rparr>)) = None \<and>
   map cell_name
     (table_rows (fst (refresh_table demo_env demo_files (demo_start\<lparr>show_hidden := True\<rparr>)))) =
     [''Docs'', ''.hidden'', ''a.txt'', ''B.txt'', ''notes''] \<and>
   map cell_name
     (table_rows (fst (refresh_table demo_env demo_files (demo_start\<lparr>show_hidden := False\<rparr>)))) =
     [''Docs'', ''a.txt'', ''B.txt'', ''notes''] \<and>
   row_entries (fst (refresh_table demo_env demo_files (demo_start\<lparr>show_hidden := False\<rparr>))) =
     Some [[''home'', ''u'', ''Docs''], [''home'', ''u'', ''a.txt''],
           [''home'', ''u'', ''B.txt''], [''home'', ''u'', ''notes'']]"
proof -
  let ?all = "refresh_table demo_env demo_files (demo_start\<lparr>show_hidden := True\<rparr>)"
  let ?entries = "[[''home'', ''u'', ''Docs''], [''home'', ''u'', ''.hidden''],
          [''home'', ''u'', ''a.txt''], [''home'', ''u'', ''B.txt''],
          [''home'', ''u'', ''notes'']]"
  have n: "snd ?all = None"
    by (simp add: demo_simps model_simps)
  have a: "map cell_name (table_rows (fst ?all)) =
             [''Docs'', ''.hidden'', ''a.txt'', ''B.txt'', ''notes'']"
    by (simp add: demo_simps model_simps)
  have s: "sorted_entries demo_env demo_files (current_dir demo_start) = Inr ?entries"
    by (simp add: demo_simps model_simps)
  have f: "filter (\<lambda>p. \<not> startswith_dot (path_name demo_env p)) ?entries =
             [[''home'', ''u'', ''Docs''], [''home'', ''u'', ''a.txt''],
              [''home'', ''u'', ''B.txt''], [''home'', ''u'', ''notes'']]"
    by (simp add: demo_simps)
  from n have h: "?all = (fst ?all, None)"
    by (simp add: prod_eq_iff)
  from hidden_entries_filtered [OF h] s obtain app_vis
    where v: "refresh_table demo_env demo_files (demo_start\<lparr>show_hidden := False\<rparr>) =
             (app_vis, None)"
      and t: "table_rows app_vis =
             filter (\<lambda>r. \<not> startswith_dot (cell_name r)) (table_rows (fst ?all))"
      and r: "row_entries app_vis =
             Some (filter (\<lambda>p. \<not> startswith_dot (path_name demo_env p)) ?entries)"
    by blast
  from v t have "map cell_name
      (table_rows (fst (refresh_table demo_env demo_files (demo_start\<lparr>show_hidden := False\<rparr>)))) =
      filter (\<lambda>n. \<not> startswith_dot n) (map cell_name (table_rows (fst ?all)))"
    by (simp add: filter_map comp_def)
  with a have "map cell_name
      (table_rows (fst (refresh_table demo_env demo_files (demo_start\<lparr>show_hidden := False\<rparr>)))) =
      [''Docs'', ''a.txt'', ''B.txt'', ''notes'']"
    by simp
  with n a v r f show ?thesis by simp
qed

section \<open>The clipboard across pastes\<close>

text \<open>
  Claim C4. From a state whose clipboard holds \<open>x\<close> with operation \<open>cut\<close>, a paste
  whose move succeeds leaves the clipboard empty. From a state whose clipboard holds
  \<open>x\<close> with operation \<open>copy\<close> (the state the copy command leaves), after any number
  of pastes, successful or not, the clipboard still holds \<open>x\<close> with operation
  \<open>copy\<close>. The source has no command that sets the operation to \<open>cut\<close>; the first
  part is about \<open>action_paste_item\<close> in any state that has it.
\<close>

theorem cut_cleared_copy_kept:
  "(clipboard app = Some x \<and> clipboard_op app = ''cut'' \<and>
    path_join env (current_dir app) (path_name env x) \<noteq> x \<and>
    snd (fs_perform env fs (Move x (path_join env (current_dir app) (path_name env x)))) = None
    \<longrightarrow> clipboard (snd (action_paste_item env fs app)) = None) \<and>
   (clipboard app = Some x \<and> clipboard_op app = ''copy''
    \<longrightarrow> clipboard (snd (paste_times n env fs app)) = Some x \<and>
        clipboard_op (snd (paste_times n env fs app)) = ''copy'')"
  using paste_cut_clears [of app x env fs] paste_times_keeps_copy [of app n env fs]
  by auto

theorem cut_cleared_copy_kept_witness:
  "(let app = demo_in_docs (demo_copied\<lparr>clipboard_op := ''cut''\<rparr>);
        src = [''home'', ''u'', ''a.txt'']; dst = [''home'', ''u'', ''Docs'', ''a.txt'']
    in clipboard app = Some src \<and> clipboard_op app = ''cut'' \<and>
       path_join demo_env (current_dir app) (path_name demo_env src) = dst \<and>
       snd (fs_perform demo_env demo_files (Move src dst)) = None \<and>
       clipboard (snd (action_paste_item demo_env demo_files app)) = None) \<and>
   (let app = demo_in_docs demo_copied; src = [''home'', ''u'', ''a.txt'']
    in clipboard app = Some src \<and> clipboard_op app = ''copy'' \<and>
       clipboard (snd (paste_times 2 demo_env demo_files app)) = Some src \<and>
       clipboard_op (snd (paste_times 2 demo_env demo_files app)) = ''copy'')"
proof -
  let ?cut = "demo_in_docs (demo_copied\<lparr>clipboard_op := ''cut''\<rparr>)"
  let ?copy = "demo_in_docs demo_copied"
  let ?src = "[''home'', ''u'', ''a.txt'']"
  let ?dst = "[''home'', ''u'', ''Docs'', ''a.txt'']"
  have a: "clipboard ?cut = Some ?src" "clipboard_op ?cut = ''cut''"
    by (simp_all add: demo_in_docs_def demo_copied_eq)
  have b: "path_join demo_env (current_dir ?cut) (path_name demo_env ?src) = ?dst"
    by (simp add: demo_in_docs_def demo_simps)
  have c: "snd (fs_perform demo_env demo_files (Move ?src ?dst)) = None"
    by (simp add: demo_simps Let_def)
  have d: "clipboard ?copy = Some ?src" "clipboard_op ?copy = ''copy''"
    by (simp_all add: demo_in_docs_def demo_copied_eq demo_listed_eq)
  from a b c d
    cut_cleared_copy_kept [of ?cut ?src demo_env demo_files 2]
    cut_cleared_copy_kept [of ?copy ?src demo_env demo_files 2]
  show ?thesis by (simp add: Let_def)
qed

section \<open>Paste with an empty clipboard or onto the source\<close>

text \<open>
  Claim C5. With an empty clipboard, paste only sets the message that the clipboard is
  empty. When the destination \<open>current_dir / src.name\<close> equals the source, paste only
  sets the message that source and destination are the same. In both cases the
  filesystem is returned as it was, in every environment: no call is performed.
\<close>

theorem paste_needs_clipboard_and_other_place:
  "(clipboard app = None \<longrightarrow>
      action_paste_item env fs app = (fs, app\<lparr>status := StClipboardEmpty\<rparr>)) \<and>
   (clipboard app = Some src \<and> path_join env (current_dir app) (path_name env src) = src \<longrightarrow>
      action_paste_item env fs app = (fs, app\<lparr>status := StSameLocation\<rparr>))"
  using paste_rejected_empty [of app env fs] paste_rejected_same [of app src env fs]
  by blast

theorem paste_needs_clipboard_and_other_place_witness:
  "clipboard demo_listed = None \<and>
   action_paste_item demo_env demo_files demo_listed =
     (demo_files, demo_listed\<lparr>status := StClipboardEmpty\<rparr>) \<and>
   clipboard demo_copied = Some [''home'', ''u'', ''a.txt''] \<and>
   path_join demo_env (current_dir demo_copied) ''a.txt'' = [''home'', ''u'', ''a.txt''] \<and>
   action_paste_item demo_env demo_files demo_copied =
     (demo_files, demo_copied\<lparr>status := StSameLocation\<rparr>)"
proof -
  have a: "clipboard demo_listed = None"
    by (simp add: demo_listed_eq)
  have b: "clipboard demo_copied = Some [''home'', ''u'', ''a.txt'']"
    by (simp add: demo_copied_eq)
  have c: "path_join demo_env (current_dir demo_copied)
             (path_name demo_env [''home'', ''u'', ''a.txt'']) = [''home'', ''u'', ''a.txt'']"
    by (simp add: demo_copied_eq demo_listed_eq demo_simps)
  have d: "path_name demo_env [''home'', ''u'', ''a.txt''] = ''a.txt''"
    by (simp add: demo_env_def demo_name_def)
  from a b c d
    paste_needs_clipboard_and_other_place
      [of demo_listed demo_env demo_files "[''home'', ''u'', ''a.txt'']"]
    paste_needs_clipboard_and_other_place
      [of demo_copied demo_env demo_files "[''home'', ''u'', ''a.txt'']"]
  show ?thesis by simp
qed

section \<open>Rename to the same or to an empty name\<close>

text \<open>
  Claim C8. With an entry selected, a rename dialog dismissed with the empty string or
  with the current name of the entry changes nothing: the filesystem is returned as it
  was (no call is performed), and the state, with table and message, is unchanged.
\<close>

theorem rename_same_or_empty_is_noop:
  assumes "selected_entry app = Some entry"
    and "result = Some [] \<or> result = Some (path_name env entry)"
  shows "action_rename env fs app result = (fs, app)"
  using assms by (auto simp: action_rename_def rename_handle_def truthy_def)

theorem rename_same_or_empty_is_noop_witness:
  "selected_entry (demo_listed\<lparr>cursor_row := 1\<rparr>) = Some [''home'', ''u'', ''a.txt''] \<and>
   action_rename demo_env demo_files (demo_listed\<lparr>cursor_row := 1\<rparr>) (Some ''a.txt'') =
     (demo_files, demo_listed\<lparr>cursor_row := 1\<rparr>) \<and>
   action_rename demo_env demo_files (demo_listed\<lparr>cursor_row := 1\<rparr>) (Some '''') =
     (demo_files, demo_listed\<lparr>cursor_row := 1\<rparr>)"
proof -
  have s: "selected_entry (demo_listed\<lparr>cursor_row := 1\<rparr>) = Some [''home'', ''u'', ''a.txt'']"
    by (simp add: demo_listed_eq selected_entry_def)
  have n: "Some ''a.txt'' = Some (path_name demo_env [''home'', ''u'', ''a.txt''])"
    by (simp add: demo_env_def demo_name_def)
  from s n
    rename_same_or_empty_is_noop [OF s, of "Some ''a.txt''" demo_env demo_files]
    rename_same_or_empty_is_noop [OF s, of "Some ''''" demo_env demo_files]
  show ?thesis by simp
qed

section \<open>Text input is stripped\<close>

text \<open>
  Claim C9. The input dialog dismisses with its text stripped, on the OK button
  (\<open>confirm\<close>) and on the Enter key (\<open>submit\<close>) alike: for a text made of whitespace,
  then a core that neither starts nor ends with whitespace, then whitespace, the value
  is the core (every text has this form, by \<open>input_decomposition\<close>). When the core is
  empty (the text is only whitespace), the value is the empty string and the callbacks
  of new file, new directory, rename and go to path change nothing, exactly as they do
  on a cancellation.
\<close>

theorem whitespace_only_input_is_cancellation:
  assumes "\<forall>c \<in> set ws1. isspace c" and "\<forall>c \<in> set ws2. isspace c"
    and "core = [] \<or> (\<not> isspace (hd core) \<and> \<not> isspace (last core))"
  shows "InputModal_confirm (ws1 @ core @ ws2) = Some core \<and>
         InputModal_submit (ws1 @ core @ ws2) = Some core \<and>
         (core = [] \<longrightarrow>
            (\<forall>result \<in> {InputModal_confirm (ws1 @ core @ ws2),
                         InputModal_submit (ws1 @ core @ ws2), InputModal_cancel}.
               action_new_file env fs app result = (fs, app) \<and>
               action_new_dir env fs app result = (fs, app) \<and>
               rename_handle env fs app entry result = (fs, app) \<and>
               action_goto env fs app result = (app, None)))"
proof -
  have c: "InputModal_confirm (ws1 @ core @ ws2) = Some core"
    using strip_padded [OF assms] by (simp add: InputModal_confirm_def)
  then have s: "InputModal_submit (ws1 @ core @ ws2) = Some core"
    by (simp add: InputModal_submit_def)
  show ?thesis
    unfolding c s
    by (simp add: InputModal_cancel_def action_new_file_def action_new_dir_def
          rename_handle_def action_goto_def truthy_def)
qed

theorem whitespace_only_input_is_cancellation_witness:
  "InputModal_confirm '' notes.txt  '' = Some ''notes.txt'' \<and>
   InputModal_submit '' notes.txt  '' = Some ''notes.txt'' \<and>
   InputModal_confirm ''   '' = Some [] \<and>
   InputModal_submit ''   '' = Some [] \<and>
   action_new_file demo_env demo_files demo_listed (InputModal_confirm ''   '') =
     (demo_files, demo_listed) \<and>
   action_new_dir demo_env demo_files demo_listed (InputModal_submit ''   '') =
     (demo_files, demo_listed) \<and>
   rename_handle demo_env demo_files demo_listed [''home'', ''u'', ''a.txt'']
     (InputModal_submit ''   '') = (demo_files, demo_listed) \<and>
   action_goto demo_env demo_files demo_listed (InputModal_submit ''   '') =
     (demo_listed, None)"
proof -
  have sp: "\<forall>c \<in> set '' ''. isspace c" "\<forall>c \<in> set ''  ''. isspace c"
    "\<forall>c \<in> set []. isspace c"
    by (simp_all add: isspace_def)
  have co: "''notes.txt'' = [] \<or>
            (\<not> isspace (hd ''notes.txt'') \<and> \<not> isspace (last ''notes.txt''))"
    by (simp add: isspace_def)
  have em: "([]::string) = [] \<or> (\<not> isspace (hd []) \<and> \<not> isspace (last []))"
    by simp
  from whitespace_only_input_is_cancellation [OF sp(1) sp(2) co]
    whitespace_only_input_is_cancellation [OF sp(1) sp(2) em,
      where env = demo_env and fs = demo_files and app = demo_listed
        and entry = "[''home'', ''u'', ''a.txt'']"]
  show ?thesis by auto
qed


section \<open>The destination of a paste\<close>




section \<open>More of the example, and commands whose call raises\<close>

lemma demo_in_secret_eq:
  "demo_in_secret = demo_listed
     \<lparr>current_dir := [''secret''], path_bar := Some [''secret''], table_rows := [],
      status := StPermissionDenied, tree_path := [''secret'']\<rparr>"
  by (simp add: demo_in_secret_def demo_listed_eq InputModal_confirm_def strip_def isspace_def
        action_goto_def truthy_def assign_current_dir_def watch_current_dir_def
        demo_simps model_simps)

lemma demo_after_delete_eq:
  "demo_after_delete =
    (\<lparr>nodes =
        [([''home''], Dir),
         ([''home'', ''u''], Dir),
         ([''home'', ''u'', ''notes''], File 5),
         ([''home'', ''u'', ''B.txt''], File 7),
         ([''home'', ''u'', ''.hidden''], File 3),
         ([''home'', ''u'', ''a.txt''], File 12),
         ([''secret''], Dir),
         ([''secret'', ''key''], File 1),
         ([''mnt''], Dir),
         ([''mnt'', ''a''], File 1),
         ([''mnt'', ''.b''], File 1)],
      unreadable = [[''secret'']],
      unsearchable = [[''mnt'']],
      journal = [Rmtree [''home'', ''u'', ''Docs'']]\<rparr>,
     demo_listed
      \<lparr>table_rows :=
        [\<lparr>cell_icon = [0x1F4C4], cell_name = ''a.txt'', cell_size = SizeHuman 12,
          cell_modified = ''1970-01-01 00:00'', cell_perms = ''-rw-r--r--''\<rparr>,
         \<lparr>cell_icon = [0x1F4C4], cell_name = ''B.txt'', cell_size = SizeHuman 7,
          cell_modified = ''1970-01-01 00:00'', cell_perms = ''-rw-r--r--''\<rparr>,
         \<lparr>cell_icon = [0x1F4C4], cell_name = ''notes'', cell_size = SizeHuman 5,
          cell_modified = ''1970-01-01 00:00'', cell_perms = ''-rw-r--r--''\<rparr>],
       row_entries := Some [[''home'', ''u'', ''a.txt''], [''home'', ''u'', ''B.txt''],
                            [''home'', ''u'', ''notes'']],
       status := StDeleted ''Docs''\<rparr>)"
  by (simp add: demo_after_delete_def demo_listed_eq action_delete_def delete_handle_def
        selected_entry_def try_call_refresh_def demo_simps model_simps)

lemma demo_stale_eq:
  "demo_stale =
     \<lparr>nodes =
        [([''home''], Dir),
         ([''home'', ''u''], Dir),
         ([''home'', ''u'', ''notes''], File 5),
         ([''home'', ''u'', ''B.txt''], File 7),
         ([''home'', ''u'', ''.hidden''], File 3),
         ([''home'', ''u'', ''Docs''], Dir),
         ([''home'', ''u'', ''Docs'', ''notes''], Dir),
         ([''secret''], Dir),
         ([''secret'', ''key''], File 1),
         ([''mnt''], Dir),
         ([''mnt'', ''a''], File 1),
         ([''mnt'', ''.b''], File 1)],
      unreadable = [[''secret'']],
      unsearchable = [[''mnt'']],
      journal = [Unlink [''home'', ''u'', ''a.txt'']]\<rparr>"
  by (simp add: demo_stale_def demo_simps Let_def)

lemma demo_docs_removed_eq:
  "demo_docs_removed =
     \<lparr>nodes =
        [([''home''], Dir),
         ([''home'', ''u''], Dir),
         ([''home'', ''u'', ''notes''], File 5),
         ([''home'', ''u'', ''B.txt''], File 7),
         ([''home'', ''u'', ''.hidden''], File 3),
         ([''home'', ''u'', ''a.txt''], File 12),
         ([''secret''], Dir),
         ([''secret'', ''key''], File 1),
         ([''mnt''], Dir),
         ([''mnt'', ''a''], File 1),
         ([''mnt'', ''.b''], File 1)],
      unreadable = [[''secret'']],
      unsearchable = [[''mnt'']],
      journal = []\<rparr>"
  by (simp add: demo_docs_removed_def demo_simps Let_def)

lemma demo_locked_eq:
  "demo_locked =
     \<lparr>nodes =
        [([''home''], Dir),
         ([''home'', ''u''], Dir),
         ([''home'', ''u'', ''notes''], File 5),
         ([''home'', ''u'', ''B.txt''], File 7),
         ([''home'', ''u'', ''.hidden''], File 3),
         ([''home'', ''u'', ''Docs''], Dir),
         ([''home'', ''u'', ''a.txt''], File 12),
         ([''home'', ''u'', ''Docs'', ''notes''], Dir),
         ([''secret''], Dir),
         ([''secret'', ''key''], File 1),
         ([''mnt''], Dir),
         ([''mnt'', ''a''], File 1),
         ([''mnt'', ''.b''], File 1)],
      unreadable = [[''secret'']],
      unsearchable = [[''home'', ''u''], [''mnt'']],
      journal = []\<rparr>"
  by (simp add: demo_locked_def demo_simps Let_def)

lemma demo_entered_docs_eq:
  "demo_entered_docs =
     \<lparr>current_dir = [''home'', ''u'', ''Docs''], show_hidden = False, clipboard = None,
      clipboard_op = ''copy'',
      table_rows =
        [\<lparr>cell_icon = [0x1F4C1], cell_name = ''notes'', cell_size = SizeDash,
          cell_modified = ''1970-01-01 00:00'', cell_perms = ''drwxr-xr-x''\<rparr>],
      cursor_row = 0,
      row_entries = Some [[''home'', ''u'', ''Docs'', ''notes'']],
      status = StItems 1 [''home'', ''u'', ''Docs''] False,
      path_bar = Some [''home'', ''u'', ''Docs''],
      tree_path = [''home'', ''u'', ''Docs'']\<rparr>"
  by (simp add: demo_entered_docs_def demo_listed_eq on_dir_selected_def
        assign_current_dir_def watch_current_dir_def demo_simps model_simps)

lemma new_file_raised:
  "r \<noteq> [] \<Longrightarrow>
   fs_perform env fs (Touch (path_join env (current_dir app) r)) = (fs', Some e) \<Longrightarrow>
   action_new_file env fs app (Some r) =
     (fs', app\<lparr>status := (if e = FileExistsError then StFileExists r else StError e)\<rparr>)"
  by (simp add: action_new_file_def truthy_def try_call_refresh_raised)

lemma new_dir_raised:
  "r \<noteq> [] \<Longrightarrow>
   fs_perform env fs (Mkdir (path_join env (current_dir app) r)) = (fs', Some e) \<Longrightarrow>
   action_new_dir env fs app (Some r) =
     (fs', app\<lparr>status := (if e = FileExistsError then StDirExists r else StError e)\<rparr>)"
  by (simp add: action_new_dir_def truthy_def try_call_refresh_raised)

lemma rename_raised:
  "selected_entry app = Some entry \<Longrightarrow> r \<noteq> [] \<Longrightarrow> r \<noteq> path_name env entry \<Longrightarrow>
   fs_perform env fs (Rename entry (path_join env (current_dir app) r)) = (fs', Some e) \<Longrightarrow>
   action_rename env fs app (Some r) = (fs', app\<lparr>status := StError e\<rparr>)"
  by (simp add: action_rename_def rename_handle_def truthy_def try_call_refresh_raised)

lemma delete_test_raised:
  "selected_entry app = Some entry \<Longrightarrow> path_is_dir env fs entry = Inl e \<Longrightarrow>
   action_delete env fs app True = (fs, app\<lparr>status := StError e\<rparr>)"
  by (simp add: action_delete_def delete_handle_def set_status_def)

lemma delete_raised:
  "selected_entry app = Some entry \<Longrightarrow> path_is_dir env fs entry = Inr d \<Longrightarrow>
   fs_perform env fs (if d then Rmtree entry else Unlink entry) = (fs', Some e) \<Longrightarrow>
   action_delete env fs app True = (fs', app\<lparr>status := StError e\<rparr>)"
  by (cases d) (simp_all add: action_delete_def delete_handle_def try_call_refresh_raised)

lemma paste_move_raised:
  "clipboard app = Some src \<Longrightarrow>
   dst = path_join env (current_dir app) (path_name env src) \<Longrightarrow> dst \<noteq> src \<Longrightarrow>
   clipboard_op app = ''cut'' \<Longrightarrow>
   fs_perform env fs (Move src dst) = (fs', Some e) \<Longrightarrow>
   action_paste_item env fs app = (fs', app\<lparr>status := StError e\<rparr>)"
  by (simp add: action_paste_item_def Let_def set_status_def)

lemma paste_test_raised:
  "clipboard app = Some src \<Longrightarrow>
   dst = path_join env (current_dir app) (path_name env src) \<Longrightarrow> dst \<noteq> src \<Longrightarrow>
   clipboard_op app \<noteq> ''cut'' \<Longrightarrow> path_is_dir env fs src = Inl e \<Longrightarrow>
   action_paste_item env fs app = (fs, app\<lparr>status := StError e\<rparr>)"
  by (simp add: action_paste_item_def Let_def set_status_def)

lemma paste_copy_raised:
  "clipboard app = Some src \<Longrightarrow>
   dst = path_join env (current_dir app) (path_name env src) \<Longrightarrow> dst \<noteq> src \<Longrightarrow>
   clipboard_op app \<noteq> ''cut'' \<Longrightarrow> path_is_dir env fs src = Inr d \<Longrightarrow>
   fs_perform env fs (if d then Copytree src dst else Copy2 src dst) = (fs', Some e) \<Longrightarrow>
   action_paste_item env fs app = (fs', app\<lparr>status := StError e\<rparr>)"
  by (cases d) (simp_all add: action_paste_item_def Let_def set_status_def)

lemma toggle_hidden_denied:
  "sorted_entries env fs (current_dir app) = Inl PermissionError \<Longrightarrow>
   action_toggle_hidden env fs app =
     (app\<lparr>show_hidden := \<not> show_hidden app, table_rows := [], cursor_row := 0,
          status := StPermissionDenied\<rparr>, None)"
  by (simp add: action_toggle_hidden_def refresh_table_denied)

lemma assign_current_dir_denied:
  "p \<noteq> current_dir app \<Longrightarrow> sorted_entries env fs p = Inl PermissionError \<Longrightarrow>
   assign_current_dir env fs app p =
     (app\<lparr>current_dir := p, path_bar := Some p, table_rows := [], cursor_row := 0,
          status := StPermissionDenied, tree_path := p\<rparr>, None)"
  by (simp add: assign_current_dir_def watch_current_dir_def refresh_table_denied)


section \<open>Enumeration failures in the listing builder\<close>

text \<open>
  Claim C1. \<open>refresh_table\<close> catches \<open>PermissionError\<close> only. In the example, the
  directory \<open>Docs\<close> has been deleted with the delete command and is then chosen in the
  directory tree, which still shows it: the enumeration raises \<open>FileNotFoundError\<close>,
  and this exception leaves \<open>refresh_table\<close> and its caller.
\<close>

theorem refresh_table_raises_not_found:
  "path_iterdir demo_env (fst demo_after_delete) [''home'', ''u'', ''Docs''] =
     Inl FileNotFoundError \<and>
   snd (refresh_table demo_env (fst demo_after_delete)
          ((snd demo_after_delete)\<lparr>current_dir := [''home'', ''u'', ''Docs'']\<rparr>)) =
     Some FileNotFoundError \<and>
   snd (on_dir_selected demo_env (fst demo_after_delete) (snd demo_after_delete)
          [''home'', ''u'', ''Docs'']) =
     Some FileNotFoundError"
  by (simp add: demo_after_delete_eq demo_listed_eq on_dir_selected_def
        assign_current_dir_def watch_current_dir_def demo_simps model_simps)

section \<open>Commands that fail\<close>

text \<open>
  Claim C2, as stated, fails, in two ways. In the unreadable directory \<open>/secret\<close> the
  command toggle hidden fails to enumerate the directory (\<open>PermissionError\<close>, reported
  by the permission warning), and yet \<open>show_hidden\<close> has changed from \<open>False\<close> to
  \<open>True\<close>. And when the directory \<open>Docs\<close> that the application shows has been removed
  from outside, the command new file with the name \<open>/home/u/new.txt\<close> creates the file
  and then fails to rebuild the listing (\<open>FileNotFoundError\<close>): it reports the failure
  with the filesystem changed and the listing emptied.
\<close>

theorem failed_command_changes_state:
  "path_iterdir demo_env demo_files (current_dir demo_in_secret) = Inl PermissionError \<and>
   action_toggle_hidden demo_env demo_files demo_in_secret =
     (demo_in_secret\<lparr>show_hidden := True, cursor_row := 0\<rparr>, None) \<and>
   status demo_in_secret = StPermissionDenied \<and>
   show_hidden demo_in_secret = False \<and>
   current_dir demo_entered_docs = [''home'', ''u'', ''Docs''] \<and>
   map cell_name (table_rows demo_entered_docs) = [''notes''] \<and>
   path_exists demo_env demo_docs_removed [''home'', ''u'', ''new.txt''] = Inr False \<and>
   snd (action_new_file demo_env demo_docs_removed demo_entered_docs
          (InputModal_confirm ''/home/u/new.txt'')) =
     demo_entered_docs\<lparr>table_rows := [], status := StError FileNotFoundError\<rparr> \<and>
   journal (fst (action_new_file demo_env demo_docs_removed demo_entered_docs
                   (InputModal_confirm ''/home/u/new.txt''))) =
     [Touch [''home'', ''u'', ''new.txt'']] \<and>
   path_exists demo_env
     (fst (action_new_file demo_env demo_docs_removed demo_entered_docs
             (InputModal_confirm ''/home/u/new.txt'')))
     [''home'', ''u'', ''new.txt''] = Inr True"
  by (simp add: demo_in_secret_eq demo_listed_eq demo_entered_docs_eq demo_docs_removed_eq
        action_toggle_hidden_def action_new_file_def try_call_refresh_def truthy_def
        InputModal_confirm_def strip_def isspace_def demo_simps model_simps)

text \<open>
  Claim C2, amended. For new file, new directory, rename, delete and paste: when the
  call of the command that changes the filesystem raises, or the directory test that
  delete and the copying paste make before it, the command makes no other call; the
  state after the command is the state before it with a failure message: current
  directory, hidden flag, clipboard and listing are unchanged. The filesystem is as
  the call that raised left it, and unchanged when the test raised. (A failure of the
  rebuild of the listing that follows a call that succeeded is not covered.) Toggle
  hidden and the choice of another directory keep their change of state when the
  sorted enumeration is denied: the hidden flag is inverted, respectively the current
  directory is the chosen one, the listing is empty and the message is the permission
  warning.
\<close>

theorem failed_mutation_changes_only_status:
  "(r1 \<noteq> [] \<and>
    fs_perform env fs (Touch (path_join env (current_dir app) r1)) = (fs1, Some e1) \<longrightarrow>
      action_new_file env fs app (Some r1) =
        (fs1, app\<lparr>status := (if e1 = FileExistsError then StFileExists r1 else StError e1)\<rparr>)) \<and>
   (r2 \<noteq> [] \<and>
    fs_perform env fs (Mkdir (path_join env (current_dir app) r2)) = (fs2, Some e2) \<longrightarrow>
      action_new_dir env fs app (Some r2) =
        (fs2, app\<lparr>status := (if e2 = FileExistsError then StDirExists r2 else StError e2)\<rparr>)) \<and>
   (selected_entry app = Some entry \<and> r3 \<noteq> [] \<and> r3 \<noteq> path_name env entry \<and>
    fs_perform env fs (Rename entry (path_join env (current_dir app) r3)) = (fs3, Some e3) \<longrightarrow>
      action_rename env fs app (Some r3) = (fs3, app\<lparr>status := StError e3\<rparr>)) \<and>
   (selected_entry app = Some entry \<and> path_is_dir env fs entry = Inl e4 \<longrightarrow>
      action_delete env fs app True = (fs, app\<lparr>status := StError e4\<rparr>)) \<and>
   (selected_entry app = Some entry \<and> path_is_dir env fs entry = Inr d5 \<and>
    fs_perform env fs (if d5 then Rmtree entry else Unlink entry) = (fs5, Some e5) \<longrightarrow>
      action_delete env fs app True = (fs5, app\<lparr>status := StError e5\<rparr>)) \<and>
   (clipboard app = Some src \<and>
    dst = path_join env (current_dir app) (path_name env src) \<and> dst \<noteq> src \<longrightarrow>
      (clipboard_op app = ''cut'' \<and> fs_perform env fs (Move src dst) = (fs6, Some e6) \<longrightarrow>
         action_paste_item env fs app = (fs6, app\<lparr>status := StError e6\<rparr>)) \<and>
      (clipboard_op app \<noteq> ''cut'' \<and> path_is_dir env fs src = Inl e7 \<longrightarrow>
         action_paste_item env fs app = (fs, app\<lparr>status := StError e7\<rparr>)) \<and>
      (clipboard_op app \<noteq> ''cut'' \<and> path_is_dir env fs src = Inr d8 \<and>
       fs_perform env fs (if d8 then Copytree src dst else Copy2 src dst) = (fs8, Some e8) \<longrightarrow>
         action_paste_item env fs app = (fs8, app\<lparr>status := StError e8\<rparr>))) \<and>
   (sorted_entries env fs (current_dir app) = Inl PermissionError \<longrightarrow>
      action_toggle_hidden env fs app =
        (app\<lparr>show_hidden := \<not> show_hidden app, table_rows := [], cursor_row := 0,
             status := StPermissionDenied\<rparr>, None)) \<and>
   (p \<noteq> current_dir app \<and> sorted_entries env fs p = Inl PermissionError \<longrightarrow>
      on_dir_selected env fs app p =
        (app\<lparr>current_dir := p, path_bar := Some p, table_rows := [], cursor_row := 0,
             status := StPermissionDenied, tree_path := p\<rparr>, None))"
  unfolding on_dir_selected_def
  by (intro conjI impI; (elim conjE)?;
      (rule new_file_raised new_dir_raised rename_raised delete_test_raised delete_raised
         paste_move_raised paste_test_raised paste_copy_raised toggle_hidden_denied
         assign_current_dir_denied; assumption))

theorem failed_mutation_changes_only_status_witness:
  "snd (action_new_file demo_env demo_files demo_copied (Some ''B.txt'')) =
     demo_copied\<lparr>status := StFileExists ''B.txt''\<rparr> \<and>
   snd (action_new_dir demo_env demo_files demo_copied (Some ''Docs'')) =
     demo_copied\<lparr>status := StDirExists ''Docs''\<rparr> \<and>
   snd (action_rename demo_env demo_files demo_copied (Some ''Docs'')) =
     demo_copied\<lparr>status := StError IsADirectoryError\<rparr> \<and>
   action_delete demo_env demo_locked demo_copied True =
     (demo_locked, demo_copied\<lparr>status := StError PermissionError\<rparr>) \<and>
   snd (action_delete demo_env demo_stale demo_copied True) =
     demo_copied\<lparr>status := StError FileNotFoundError\<rparr> \<and>
   snd (action_paste_item demo_env demo_stale
          (demo_in_docs (demo_copied\<lparr>clipboard_op := ''cut''\<rparr>))) =
     (demo_in_docs (demo_copied\<lparr>clipboard_op := ''cut''\<rparr>))
       \<lparr>status := StError FileNotFoundError\<rparr> \<and>
   action_paste_item demo_env demo_locked (demo_in_docs demo_copied) =
     (demo_locked, (demo_in_docs demo_copied)\<lparr>status := StError PermissionError\<rparr>) \<and>
   snd (action_paste_item demo_env demo_stale (demo_in_docs demo_copied)) =
     (demo_in_docs demo_copied)\<lparr>status := StError FileNotFoundError\<rparr> \<and>
   action_toggle_hidden demo_env demo_files demo_in_secret =
     (demo_in_secret\<lparr>show_hidden := True, table_rows := [], cursor_row := 0,
        status := StPermissionDenied\<rparr>, None) \<and>
   on_dir_selected demo_env demo_files demo_listed [''secret''] =
     (demo_listed\<lparr>current_dir := [''secret''], path_bar := Some [''secret''],
        table_rows := [], cursor_row := 0, status := StPermissionDenied,
        tree_path := [''secret'']\<rparr>, None)"
proof -
  let ?a = "[''home'', ''u'', ''a.txt'']"
  let ?d = "[''home'', ''u'', ''Docs'', ''a.txt'']"
  let ?copy = "demo_in_docs demo_copied"
  let ?cut = "demo_in_docs (demo_copied\<lparr>clipboard_op := ''cut''\<rparr>)"
  have sel: "selected_entry demo_copied = Some ?a"
    by (simp add: demo_copied_eq demo_listed_eq selected_entry_def)
  have t: "fs_perform demo_env demo_files
             (Touch (path_join demo_env (current_dir demo_copied) ''B.txt'')) =
           (demo_files\<lparr>journal := [Touch [''home'', ''u'', ''B.txt'']]\<rparr>, Some FileExistsError)"
    by (simp add: demo_copied_eq demo_listed_eq demo_simps Let_def)
  have m: "fs_perform demo_env demo_files
             (Mkdir (path_join demo_env (current_dir demo_copied) ''Docs'')) =
           (demo_files\<lparr>journal := [Mkdir [''home'', ''u'', ''Docs'']]\<rparr>, Some FileExistsError)"
    by (simp add: demo_copied_eq demo_listed_eq demo_simps Let_def)
  have n: "''Docs'' \<noteq> path_name demo_env ?a"
    by (simp add: demo_simps)
  have r: "fs_perform demo_env demo_files
             (Rename ?a (path_join demo_env (current_dir demo_copied) ''Docs'')) =
           (demo_files\<lparr>journal := [Rename ?a [''home'', ''u'', ''Docs'']]\<rparr>,
            Some IsADirectoryError)"
    by (simp add: demo_copied_eq demo_listed_eq demo_simps Let_def)
  have l: "path_is_dir demo_env demo_locked ?a = Inl PermissionError"
    by (simp add: demo_locked_eq demo_simps)
  have s: "path_is_dir demo_env demo_stale ?a = Inr False"
    by (simp add: demo_stale_eq demo_simps)
  have u: "fs_perform demo_env demo_stale (if False then Rmtree ?a else Unlink ?a) =
           (demo_stale\<lparr>journal := [Unlink ?a, Unlink ?a]\<rparr>, Some FileNotFoundError)"
    by (simp add: demo_stale_eq demo_simps Let_def)
  have c: "clipboard ?copy = Some ?a" "clipboard ?cut = Some ?a"
    "clipboard_op ?copy \<noteq> ''cut''" "clipboard_op ?cut = ''cut''"
    by (simp_all add: demo_in_docs_def demo_copied_eq demo_listed_eq)
  have j: "?d = path_join demo_env (current_dir ?copy) (path_name demo_env ?a)"
    "?d = path_join demo_env (current_dir ?cut) (path_name demo_env ?a)"
    by (simp_all add: demo_in_docs_def demo_simps)
  have ne: "?d \<noteq> ?a" by simp
  have mv: "fs_perform demo_env demo_stale (Move ?a ?d) =
           (demo_stale\<lparr>journal := [Unlink ?a, Move ?a ?d]\<rparr>, Some FileNotFoundError)"
    by (simp add: demo_stale_eq demo_simps Let_def)
  have cp: "fs_perform demo_env demo_stale (if False then Copytree ?a ?d else Copy2 ?a ?d) =
           (demo_stale\<lparr>journal := [Unlink ?a, Copy2 ?a ?d]\<rparr>, Some FileNotFoundError)"
    by (simp add: demo_stale_eq demo_simps Let_def)
  have se: "sorted_entries demo_env demo_files (current_dir demo_in_secret) =
              Inl PermissionError"
    "sorted_entries demo_env demo_files [''secret''] = Inl PermissionError"
    "[''secret''] \<noteq> current_dir demo_listed"
    by (simp_all add: demo_in_secret_eq demo_listed_eq demo_simps model_simps)
  have sh: "show_hidden demo_in_secret = False"
    by (simp add: demo_in_secret_eq demo_listed_eq)
  note thm1 = failed_mutation_changes_only_status
      [where env = demo_env and fs = demo_files and app = demo_copied
         and ?r1.0 = "''B.txt''" and ?fs1.0 = "demo_files\<lparr>journal := [Touch [''home'', ''u'', ''B.txt'']]\<rparr>"
         and ?e1.0 = FileExistsError
         and ?r2.0 = "''Docs''" and ?fs2.0 = "demo_files\<lparr>journal := [Mkdir [''home'', ''u'', ''Docs'']]\<rparr>"
         and ?e2.0 = FileExistsError
         and entry = ?a and ?r3.0 = "''Docs''"
         and ?fs3.0 = "demo_files\<lparr>journal := [Rename ?a [''home'', ''u'', ''Docs'']]\<rparr>"
         and ?e3.0 = IsADirectoryError]
  from sel t m n r thm1 [THEN conjunct1] thm1 [THEN conjunct2, THEN conjunct1] thm1 [THEN conjunct2, THEN conjunct2, THEN conjunct1]
  have 1: "action_new_file demo_env demo_files demo_copied (Some ''B.txt'') =
       (demo_files\<lparr>journal := [Touch [''home'', ''u'', ''B.txt'']]\<rparr>,
        demo_copied\<lparr>status := StFileExists ''B.txt''\<rparr>) \<and>
     action_new_dir demo_env demo_files demo_copied (Some ''Docs'') =
       (demo_files\<lparr>journal := [Mkdir [''home'', ''u'', ''Docs'']]\<rparr>,
        demo_copied\<lparr>status := StDirExists ''Docs''\<rparr>) \<and>
     action_rename demo_env demo_files demo_copied (Some ''Docs'') =
       (demo_files\<lparr>journal := [Rename ?a [''home'', ''u'', ''Docs'']]\<rparr>,
        demo_copied\<lparr>status := StError IsADirectoryError\<rparr>)"
    by simp
  from sel l
    failed_mutation_changes_only_status
      [where env = demo_env and fs = demo_locked and app = demo_copied and entry = ?a
         and ?e4.0 = PermissionError, THEN conjunct2, THEN conjunct2, THEN conjunct2, THEN conjunct1]
  have 2: "action_delete demo_env demo_locked demo_copied True =
     (demo_locked, demo_copied\<lparr>status := StError PermissionError\<rparr>)"
    by blast
  from sel s u
    failed_mutation_changes_only_status
      [where env = demo_env and fs = demo_stale and app = demo_copied and entry = ?a
         and ?d5.0 = False and ?fs5.0 = "demo_stale\<lparr>journal := [Unlink ?a, Unlink ?a]\<rparr>"
         and ?e5.0 = FileNotFoundError, THEN conjunct2, THEN conjunct2, THEN conjunct2, THEN conjunct2, THEN conjunct1]
  have 3: "action_delete demo_env demo_stale demo_copied True =
     (demo_stale\<lparr>journal := [Unlink ?a, Unlink ?a]\<rparr>,
      demo_copied\<lparr>status := StError FileNotFoundError\<rparr>)"
    by blast
  from c(2,4) j(2) ne mv
    failed_mutation_changes_only_status
      [where env = demo_env and fs = demo_stale and app = ?cut and src = ?a and dst = ?d
         and ?fs6.0 = "demo_stale\<lparr>journal := [Unlink ?a, Move ?a ?d]\<rparr>"
         and ?e6.0 = FileNotFoundError and ?e7.0 = OSError and ?d8.0 = False
         and ?fs8.0 = demo_stale and ?e8.0 = OSError, THEN conjunct2, THEN conjunct2, THEN conjunct2, THEN conjunct2, THEN conjunct2, THEN conjunct1]
  have 4: "action_paste_item demo_env demo_stale ?cut =
     (demo_stale\<lparr>journal := [Unlink ?a, Move ?a ?d]\<rparr>,
      ?cut\<lparr>status := StError FileNotFoundError\<rparr>)"
    by blast
  from c(1,3) j(1) ne l
    failed_mutation_changes_only_status
      [where env = demo_env and fs = demo_locked and app = ?copy and src = ?a and dst = ?d
         and ?e7.0 = PermissionError and ?fs6.0 = demo_stale and ?e6.0 = OSError
         and ?d8.0 = False and ?fs8.0 = demo_stale and ?e8.0 = OSError, THEN conjunct2, THEN conjunct2, THEN conjunct2, THEN conjunct2, THEN conjunct2, THEN conjunct1]
  have 5: "action_paste_item demo_env demo_locked ?copy =
     (demo_locked, ?copy\<lparr>status := StError PermissionError\<rparr>)"
    by blast
  from c(1,3) j(1) ne s cp
    failed_mutation_changes_only_status
      [where env = demo_env and fs = demo_stale and app = ?copy and src = ?a and dst = ?d
         and ?d8.0 = False and ?fs8.0 = "demo_stale\<lparr>journal := [Unlink ?a, Copy2 ?a ?d]\<rparr>"
         and ?e8.0 = FileNotFoundError and ?fs6.0 = demo_stale and ?e6.0 = OSError
         and ?e7.0 = OSError, THEN conjunct2, THEN conjunct2, THEN conjunct2, THEN conjunct2, THEN conjunct2, THEN conjunct1]
  have 6: "action_paste_item demo_env demo_stale ?copy =
     (demo_stale\<lparr>journal := [Unlink ?a, Copy2 ?a ?d]\<rparr>,
      ?copy\<lparr>status := StError FileNotFoundError\<rparr>)"
    by blast
  from se(1) sh
    failed_mutation_changes_only_status
      [where env = demo_env and fs = demo_files and app = demo_in_secret, THEN conjunct2, THEN conjunct2, THEN conjunct2, THEN conjunct2, THEN conjunct2, THEN conjunct2, THEN conjunct1]
  have 7: "action_toggle_hidden demo_env demo_files demo_in_secret =
     (demo_in_secret\<lparr>show_hidden := True, table_rows := [], cursor_row := 0,
        status := StPermissionDenied\<rparr>, None)"
    by simp
  from se(2,3)
    failed_mutation_changes_only_status
      [where env = demo_env and fs = demo_files and app = demo_listed and p = "[''secret'']",
         THEN conjunct2, THEN conjunct2, THEN conjunct2, THEN conjunct2, THEN conjunct2, THEN conjunct2, THEN conjunct2]
  have 8: "on_dir_selected demo_env demo_files demo_listed [''secret''] =
     (demo_listed\<lparr>current_dir := [''secret''], path_bar := Some [''secret''],
        table_rows := [], cursor_row := 0, status := StPermissionDenied,
        tree_path := [''secret'']\<rparr>, None)"
    by blast
  from 1 2 3 4 5 6 7 8 show ?thesis by simp
qed

section \<open>Go to path\<close>




end
